theory Spec2Isabelle
  imports Complex_Main "HOL-Library.Multiset" "HOL-Library.Sublist" "HOL-Library.Log_Nat"
begin

section \<open>JavaScript numbers\<close>

text \<open>
  A JavaScript \<^verbatim>\<open>number\<close> is an IEEE 754 binary64 value. A finite one is held as the
  rational it denotes (\<open>Fin\<close>); the two zeros are not told apart. Every arithmetic
  operation gives the exact result rounded to the nearest binary64 value, ties to the
  even significand, and an infinity beyond the largest finite value.
\<close>

datatype js_number = Fin rat | PInf | NInf | NaN

text \<open>The integer \<open>e\<close> with \<open>2 ^ e \<le> x < 2 ^ (e + 1)\<close>, for a positive \<open>x\<close>.\<close>

definition ilog2 :: "rat \<Rightarrow> int" where
  "ilog2 x =
     (case quotient_of x of (p, q) \<Rightarrow>
        let k = bitlen p - bitlen q in if 2 powi k \<le> x then k else k - 1)"

definition round_half_even :: "rat \<Rightarrow> int" where
  "round_half_even y =
     (let n = \<lfloor>y\<rfloor>; f = y - of_int n
      in if f < 1 / 2 then n else if 1 / 2 < f then n + 1 else if even n then n else n + 1)"

text \<open>
  The exponent of the binade of \<open>x\<close>: below \<open>2 ^ - 1022\<close> the values are subnormal and
  keep that exponent.
\<close>

definition binade :: "rat \<Rightarrow> int" where
  "binade x = max (ilog2 x) (- 1022)"

text \<open>A positive \<open>x\<close> rounded to 53 significant bits in its binade.\<close>

definition round_magnitude :: "rat \<Rightarrow> rat" where
  "round_magnitude x =
     (let q = 2 powi (binade x - 52)
      in of_int (round_half_even (x / q)) * q)"

definition round_double :: "rat \<Rightarrow> js_number" where
  "round_double x =
     (if x = 0 then Fin 0
      else let m = round_magnitude \<bar>x\<bar>
           in if 2 powi 1024 \<le> m then (if 0 < x then PInf else NInf)
              else Fin (if 0 < x then m else - m))"

text \<open>A decimal literal of the source denotes the nearest binary64 value.\<close>

definition lit :: "rat \<Rightarrow> js_number" where
  "lit x = round_double x"

text \<open>\<^verbatim>\<open>Number.MAX_VALUE\<close>, the largest finite value.\<close>

definition MAX_VALUE :: rat where
  "MAX_VALUE = (2 ^ 53 - 1) * 2 ^ 971"

fun js_neg :: "js_number \<Rightarrow> js_number" where
  "js_neg (Fin x) = Fin (- x)"
| "js_neg PInf = NInf"
| "js_neg NInf = PInf"
| "js_neg NaN = NaN"

fun js_add :: "js_number \<Rightarrow> js_number \<Rightarrow> js_number" where
  "js_add (Fin x) (Fin y) = round_double (x + y)"
| "js_add NaN _ = NaN"
| "js_add _ NaN = NaN"
| "js_add PInf NInf = NaN"
| "js_add NInf PInf = NaN"
| "js_add PInf _ = PInf"
| "js_add NInf _ = NInf"
| "js_add _ PInf = PInf"
| "js_add _ NInf = NInf"

definition js_sub :: "js_number \<Rightarrow> js_number \<Rightarrow> js_number" where
  "js_sub a b = js_add a (js_neg b)"

fun js_sgn :: "js_number \<Rightarrow> int" where
  "js_sgn (Fin x) = (if x < 0 then - 1 else if x = 0 then 0 else 1)"
| "js_sgn PInf = 1"
| "js_sgn NInf = - 1"
| "js_sgn NaN = 0"

fun js_mul :: "js_number \<Rightarrow> js_number \<Rightarrow> js_number" where
  "js_mul (Fin x) (Fin y) = round_double (x * y)"
| "js_mul NaN _ = NaN"
| "js_mul _ NaN = NaN"
| "js_mul a b =
     (if js_sgn a * js_sgn b = 0 then NaN else if js_sgn a * js_sgn b = 1 then PInf else NInf)"

text \<open>\<^verbatim>\<open>a <= b\<close>, false when an operand is NaN.\<close>

fun js_le :: "js_number \<Rightarrow> js_number \<Rightarrow> bool" where
  "js_le (Fin x) (Fin y) = (x \<le> y)"
| "js_le NaN _ = False"
| "js_le _ NaN = False"
| "js_le NInf _ = True"
| "js_le _ PInf = True"
| "js_le _ _ = False"

text \<open>\<^verbatim>\<open>v > 0\<close>, false for NaN.\<close>

fun js_positive :: "js_number \<Rightarrow> bool" where
  "js_positive (Fin x) = (0 < x)"
| "js_positive PInf = True"
| "js_positive NInf = False"
| "js_positive NaN = False"

section \<open>Tire recommendation ranker (src/pages/Index.tsx)\<close>

text \<open>
  A number of a fetched row comes from JSON, so it is a finite value: the columns hold
  rationals, and a column that is \<^verbatim>\<open>null\<close> is \<^term>\<open>None\<close>. The values computed from them
  are \<^typ>\<open>js_number\<close>s.
\<close>

subsection \<open>Data model\<close>

datatype WetPreference = Very | Normal | NotWet

datatype WidthPreference = W28 | Wider

text \<open>
  The row type \<^verbatim>\<open>Tables<"tires">\<close> is declared outside the two source files; the
  record has the columns that Index.tsx reads.
\<close>

record Tire =
  tire_id :: string
  brand :: string
  model :: string
  width_spec_mm :: "rat option"
  wet_center :: "rat option"
  wet_edge :: "rat option"
  rr_high_w :: "rat option"
  price :: "rat option"
  source_site :: "string option"

text \<open>\<^verbatim>\<open>interface TireWithScore extends Tire\<close>\<close>

record TireWithScore = Tire +
  score :: js_number
  wg :: rat
  rr :: rat
  explanation :: string

record Weights =
  w_wg :: js_number
  w_rr :: js_number

definition WEIGHT_CONFIG :: "WetPreference \<Rightarrow> Weights" where
  "WEIGHT_CONFIG p =
     (case p of
        Very \<Rightarrow> \<lparr>w_wg = lit 0.8, w_rr = lit 0.2\<rparr>
      | Normal \<Rightarrow> \<lparr>w_wg = lit 0.6, w_rr = lit 0.4\<rparr>
      | NotWet \<Rightarrow> \<lparr>w_wg = lit 0.35, w_rr = lit 0.65\<rparr>)"

subsection \<open>The fallback explanation\<close>

text \<open>
  The eight string literals of \<^verbatim>\<open>generateReason\<close> (lines 32 to 43), each as the list
  of its UTF-8 bytes.
\<close>

definition reason_very_wgStrong :: string where
  "reason_very_wgStrong =
    [CHR 0xE6, CHR 0xB9, CHR 0xBF, CHR 0xE5, CHR 0x9C, CHR 0xB0, CHR 0xE5, CHR 0xAE, CHR 0x89,
     CHR 0xE5, CHR 0x85, CHR 0xA8, CHR 0xE6, CHR 0x84, CHR 0x9F, CHR 0xE4, CHR 0xBC, CHR 0x98,
     CHR 0xE5, CHR 0x85, CHR 0x88, CHR 0xEF, CHR 0xBC, CHR 0x8C, CHR 0xE6, CHR 0x8A, CHR 0x93,
     CHR 0xE5, CHR 0x9C, CHR 0xB0, CHR 0xE5, CHR 0x8A, CHR 0x9B, CHR 0xE8, CHR 0xA1, CHR 0xA8,
     CHR 0xE7, CHR 0x8E, CHR 0xB0, CHR 0xE4, CHR 0xBC, CHR 0x98, CHR 0xE5, CHR 0xBC, CHR 0x82,
     CHR 0xEF, CHR 0xBC, CHR 0x8C, CHR 0xE9, CHR 0x80, CHR 0x82, CHR 0xE5, CHR 0x90, CHR 0x88,
     CHR 0xE5, CHR 0xA4, CHR 0x9A, CHR 0xE9, CHR 0x9B, CHR 0xA8, CHR 0xE8, CHR 0xB7, CHR 0xAF,
     CHR 0xE5, CHR 0x86, CHR 0xB5, CHR 0xE9, CHR 0xAA, CHR 0x91, CHR 0xE8, CHR 0xA1, CHR 0x8C]"

definition reason_very_else :: string where
  "reason_very_else =
    [CHR 0xE6, CHR 0xB9, CHR 0xBF, CHR 0xE5, CHR 0x9C, CHR 0xB0, CHR 0xE6, CHR 0x80, CHR 0xA7,
     CHR 0xE8, CHR 0x83, CHR 0xBD, CHR 0xE5, CHR 0x9C, CHR 0xA8, CHR 0xE5, CHR 0x8F, CHR 0xAF,
     CHR 0xE6, CHR 0x8E, CHR 0xA5, CHR 0xE5, CHR 0x8F, CHR 0x97, CHR 0xE8, CHR 0x8C, CHR 0x83,
     CHR 0xE5, CHR 0x9B, CHR 0xB4, CHR 0xEF, CHR 0xBC, CHR 0x8C, CHR 0xE7, CHR 0xBB, CHR 0xBC,
     CHR 0xE5, CHR 0x90, CHR 0x88, CHR 0xE8, CHR 0xA1, CHR 0xA8, CHR 0xE7, CHR 0x8E, CHR 0xB0,
     CHR 0xE8, CHR 0xBE, CHR 0x83, CHR 0xE5, CHR 0xA5, CHR 0xBD]"

definition reason_not_rrLow :: string where
  "reason_not_rrLow =
    [CHR 0xE6, CHR 0x95, CHR 0x88, CHR 0xE7, CHR 0x8E, CHR 0x87, CHR 0xE4, CHR 0xB8, CHR 0x8E,
     CHR 0xE9, CHR 0x80, CHR 0x9F, CHR 0xE5, CHR 0xBA, CHR 0xA6, CHR 0xE7, CHR 0x9A, CHR 0x84,
     CHR 0xE6, CHR 0x9C, CHR 0x80, CHR 0xE4, CHR 0xBD, CHR 0xB3, CHR 0xE5, CHR 0xB9, CHR 0xB3,
     CHR 0xE8, CHR 0xA1, CHR 0xA1, CHR 0xEF, CHR 0xBC, CHR 0x8C, CHR 0xE6, CHR 0xBB, CHR 0x9A,
     CHR 0xE9, CHR 0x98, CHR 0xBB, CHR 0xE4, CHR 0xBF, CHR 0x9D, CHR 0xE6, CHR 0x8C, CHR 0x81,
     CHR 0xE5, CHR 0x9C, CHR 0xA8, CHR 0xE4, CHR 0xBD, CHR 0x8E, CHR 0xE6, CHR 0xB0, CHR 0xB4,
     CHR 0xE5, CHR 0xB9, CHR 0xB3, CHR 0xEF, CHR 0xBC, CHR 0x8C, CHR 0xE9, CHR 0x80, CHR 0x82,
     CHR 0xE5, CHR 0x90, CHR 0x88, CHR 0xE7, CHR 0xAB, CHR 0x9E, CHR 0xE9, CHR 0x80, CHR 0x9F,
     CHR 0xE8, CHR 0xAE, CHR 0xAD, CHR 0xE7, CHR 0xBB, CHR 0x83]"

definition reason_not_else :: string where
  "reason_not_else =
    [CHR 0xE7, CHR 0xBB, CHR 0xBC, CHR 0xE5, CHR 0x90, CHR 0x88, CHR 0xE6, CHR 0x80, CHR 0xA7,
     CHR 0xE8, CHR 0x83, CHR 0xBD, CHR 0xE5, CHR 0x9D, CHR 0x87, CHR 0xE8, CHR 0xA1, CHR 0xA1,
     CHR 0xEF, CHR 0xBC, CHR 0x8C, CHR 0xE6, CHR 0xBB, CHR 0x9A, CHR 0xE9, CHR 0x98, CHR 0xBB,
     CHR 0xE4, CHR 0xB8, CHR 0x8E, CHR 0xE6, CHR 0x8A, CHR 0x93, CHR 0xE5, CHR 0x9C, CHR 0xB0,
     CHR 0xE5, CHR 0x8A, CHR 0x9B, CHR 0xE5, CHR 0x85, CHR 0xBC, CHR 0xE9, CHR 0xA1, CHR 0xBE]"

definition reason_normal_both :: string where
  "reason_normal_both =
    [CHR 0xE6, CHR 0xB9, CHR 0xBF, CHR 0xE5, CHR 0x9C, CHR 0xB0, CHR 0xE5, CHR 0xAE, CHR 0x89,
     CHR 0xE5, CHR 0x85, CHR 0xA8, CHR 0xE6, CHR 0x84, CHR 0x9F, CHR 0xE4, CHR 0xB8, CHR 0x8E,
     CHR 0xE6, CHR 0x95, CHR 0x88, CHR 0xE7, CHR 0x8E, CHR 0x87, CHR 0xE5, CHR 0x85, CHR 0xBC,
     CHR 0xE9, CHR 0xA1, CHR 0xBE, CHR 0xEF, CHR 0xBC, CHR 0x8C, CHR 0xE5, CHR 0x85, CHR 0xA8,
     CHR 0xE8, CHR 0x83, CHR 0xBD, CHR 0xE5, CHR 0x9E, CHR 0x8B, CHR 0xE9, CHR 0x80, CHR 0x89,
     CHR 0xE6, CHR 0x89, CHR 0x8B, CHR 0xEF, CHR 0xBC, CHR 0x8C, CHR 0xE9, CHR 0x80, CHR 0x82,
     CHR 0xE5, CHR 0x90, CHR 0x88, CHR 0xE6, CHR 0x97, CHR 0xA5, CHR 0xE5, CHR 0xB8, CHR 0xB8,
     CHR 0xE8, CHR 0xAE, CHR 0xAD, CHR 0xE7, CHR 0xBB, CHR 0x83, CHR 0xE4, CHR 0xB8, CHR 0x8E,
     CHR 0xE9, CHR 0x95, CHR 0xBF, CHR 0xE9, CHR 0x80, CHR 0x94]"

definition reason_normal_wgStrong :: string where
  "reason_normal_wgStrong =
    [CHR 0xE6, CHR 0xB9, CHR 0xBF, CHR 0xE5, CHR 0x9C, CHR 0xB0, CHR 0xE6, CHR 0x8A, CHR 0x93,
     CHR 0xE5, CHR 0x9C, CHR 0xB0, CHR 0xE5, CHR 0x87, CHR 0xBA, CHR 0xE8, CHR 0x89, CHR 0xB2,
     CHR 0xEF, CHR 0xBC, CHR 0x8C, CHR 0xE5, CHR 0xAE, CHR 0x89, CHR 0xE5, CHR 0x85, CHR 0xA8,
     CHR 0xE6, CHR 0x80, CHR 0xA7, CHR 0xE6, CHR 0x9B, CHR 0xB4, CHR 0xE5, CHR 0xBC, CHR 0xBA,
     CHR 0xEF, CHR 0xBC, CHR 0x8C, CHR 0xE6, CHR 0xBB, CHR 0x9A, CHR 0xE9, CHR 0x98, CHR 0xBB,
     CHR 0xE4, CHR 0xBF, CHR 0x9D, CHR 0xE6, CHR 0x8C, CHR 0x81, CHR 0xE5, CHR 0x9C, CHR 0xA8,
     CHR 0xE5, CHR 0x8F, CHR 0xAF, CHR 0xE6, CHR 0x8E, CHR 0xA5, CHR 0xE5, CHR 0x8F, CHR 0x97,
     CHR 0xE8, CHR 0x8C, CHR 0x83, CHR 0xE5, CHR 0x9B, CHR 0xB4]"

definition reason_normal_rrLow :: string where
  "reason_normal_rrLow =
    [CHR 0xE6, CHR 0xBB, CHR 0x9A, CHR 0xE9, CHR 0x98, CHR 0xBB, CHR 0xE8, CHR 0xA1, CHR 0xA8,
     CHR 0xE7, CHR 0x8E, CHR 0xB0, CHR 0xE4, CHR 0xBC, CHR 0x98, CHR 0xE7, CHR 0xA7, CHR 0x80,
     CHR 0xEF, CHR 0xBC, CHR 0x8C, CHR 0xE9, CHR 0xAA, CHR 0x91, CHR 0xE8, CHR 0xA1, CHR 0x8C,
     CHR 0xE6, CHR 0x9B, CHR 0xB4, CHR 0xE7, CHR 0x9C, CHR 0x81, CHR 0xE5, CHR 0x8A, CHR 0x9B,
     CHR 0xEF, CHR 0xBC, CHR 0x8C, CHR 0xE6, CHR 0xB9, CHR 0xBF, CHR 0xE5, CHR 0x9C, CHR 0xB0,
     CHR 0xE6, CHR 0x80, CHR 0xA7, CHR 0xE8, CHR 0x83, CHR 0xBD, CHR 0xE5, CHR 0x9C, CHR 0xA8,
     CHR 0xE5, CHR 0x90, CHR 0x88, CHR 0xE7, CHR 0x90, CHR 0x86, CHR 0xE6, CHR 0xB0, CHR 0xB4,
     CHR 0xE5, CHR 0xB9, CHR 0xB3]"

definition reason_normal_else :: string where
  "reason_normal_else =
    [CHR 0xE7, CHR 0xBB, CHR 0xBC, CHR 0xE5, CHR 0x90, CHR 0x88, CHR 0xE6, CHR 0x80, CHR 0xA7,
     CHR 0xE8, CHR 0x83, CHR 0xBD, CHR 0xE5, CHR 0x9D, CHR 0x87, CHR 0xE8, CHR 0xA1, CHR 0xA1,
     CHR 0xEF, CHR 0xBC, CHR 0x8C, CHR 0xE6, CHR 0xB9, CHR 0xBF, CHR 0xE5, CHR 0x9C, CHR 0xB0,
     CHR 0xE4, CHR 0xB8, CHR 0x8E, CHR 0xE6, CHR 0x95, CHR 0x88, CHR 0xE7, CHR 0x8E, CHR 0x87,
     CHR 0xE8, CHR 0xA1, CHR 0xA8, CHR 0xE7, CHR 0x8E, CHR 0xB0, CHR 0xE7, CHR 0xA8, CHR 0xB3,
     CHR 0xE5, CHR 0xAE, CHR 0x9A, CHR 0xEF, CHR 0xBC, CHR 0x8C, CHR 0xE9, CHR 0x80, CHR 0x82,
     CHR 0xE5, CHR 0x90, CHR 0x88, CHR 0xE6, CHR 0x97, CHR 0xA5, CHR 0xE5, CHR 0xB8, CHR 0xB8,
     CHR 0xE9, CHR 0x80, CHR 0x9A, CHR 0xE5, CHR 0x8B, CHR 0xA4, CHR 0xE9, CHR 0xAA, CHR 0x91,
     CHR 0xE8, CHR 0xA1, CHR 0x8C]"

definition generateReason :: "TireWithScore \<Rightarrow> WetPreference \<Rightarrow> string" where
  "generateReason tire wetPref =
     (let wgStrong = (wg tire \<ge> 75);
          rrLow = (rr tire \<le> 12)
      in if wetPref = Very then
           (if wgStrong then reason_very_wgStrong else reason_very_else)
         else if wetPref = NotWet then
           (if rrLow then reason_not_rrLow else reason_not_else)
         else if wgStrong \<and> rrLow then reason_normal_both
         else if wgStrong then reason_normal_wgStrong
         else if rrLow then reason_normal_rrLow
         else reason_normal_else)"

subsection \<open>Filtering and scoring (handleGenerate, lines 99 to 111)\<close>

definition validTires :: "Tire list \<Rightarrow> Tire list" where
  "validTires data_rows =
     filter (\<lambda>t. wet_center t \<noteq> None \<and> wet_edge t \<noteq> None \<and> rr_high_w t \<noteq> None) data_rows"

text \<open>
  \<^verbatim>\<open>t.wet_center!\<close> only silences the type checker. Where a \<^verbatim>\<open>null\<close> meets
  arithmetic, JavaScript reads it as 0; after the filter no such value is left.
\<close>

definition to_number :: "rat option \<Rightarrow> rat" where
  "to_number v = (case v of None \<Rightarrow> 0 | Some x \<Rightarrow> x)"

text \<open>Line 109: \<^verbatim>\<open>wg * weights.wg + rrNorm * weights.rr\<close>.\<close>

definition calc_score :: "Weights \<Rightarrow> js_number \<Rightarrow> js_number \<Rightarrow> js_number" where
  "calc_score weights wg_v rrNorm =
     js_add (js_mul wg_v (w_wg weights)) (js_mul rrNorm (w_rr weights))"

text \<open>
  The callback of \<^verbatim>\<open>validTires.map\<close> (lines 105 to 111). \<^verbatim>\<open>Math.min\<close> returns one of
  its arguments, and the literal 30 is a binary64 value.
\<close>

definition with_score :: "Weights \<Rightarrow> Tire \<Rightarrow> TireWithScore" where
  "with_score weights t =
     (let wg_v = min (to_number (wet_center t)) (to_number (wet_edge t));
          rr_v = to_number (rr_high_w t);
          rrNorm = js_sub (Fin 30) (Fin rr_v);
          score_v = calc_score weights (Fin wg_v) rrNorm
      in Tire.extend t (TireWithScore.fields score_v wg_v rr_v []))"

definition tiresWithScore :: "WetPreference \<Rightarrow> Tire list \<Rightarrow> TireWithScore list" where
  "tiresWithScore wetPref data_rows =
     (let weights = WEIGHT_CONFIG wetPref
      in map (with_score weights) (validTires data_rows))"

subsection \<open>Width groups, sorting and the top three (lines 114 to 142)\<close>

definition preferredWidths :: "WidthPreference \<Rightarrow> rat list" where
  "preferredWidths widthPref = (if widthPref = W28 then [28] else [30, 32])"

text \<open>
  \<^verbatim>\<open>t.width_spec_mm || 0\<close>: a \<^verbatim>\<open>null\<close> width becomes 0 (and 0 stays 0).
\<close>

definition width_or_0 :: "TireWithScore \<Rightarrow> rat" where
  "width_or_0 t = (case width_spec_mm t of None \<Rightarrow> 0 | Some w \<Rightarrow> if w = 0 then 0 else w)"

definition preferred_unsorted :: "WidthPreference \<Rightarrow> TireWithScore list \<Rightarrow> TireWithScore list" where
  "preferred_unsorted widthPref ts =
     filter (\<lambda>t. width_or_0 t \<in> set (preferredWidths widthPref)) ts"

definition others_unsorted :: "WidthPreference \<Rightarrow> TireWithScore list \<Rightarrow> TireWithScore list" where
  "others_unsorted widthPref ts =
     filter (\<lambda>t. width_or_0 t \<notin> set (preferredWidths widthPref)) ts"

text \<open>
  \<^verbatim>\<open>Array.prototype.sort\<close> with a comparator is a stable sort: \<^verbatim>\<open>a\<close> stays before
  \<^verbatim>\<open>b\<close> unless the comparator is positive (a comparator value NaN counts as 0). It is
  modelled by insertion from the right; the comparator of lines 125 and 126 is
  \<^verbatim>\<open>(a, b) => b.score - a.score\<close>.
\<close>

definition by_score_desc :: "TireWithScore \<Rightarrow> TireWithScore \<Rightarrow> js_number" where
  "by_score_desc a b = js_sub (score b) (score a)"

fun insert_sorted :: "('a \<Rightarrow> 'a \<Rightarrow> js_number) \<Rightarrow> 'a \<Rightarrow> 'a list \<Rightarrow> 'a list" where
  "insert_sorted cmp x [] = [x]"
| "insert_sorted cmp x (y # ys) =
     (if js_positive (cmp x y) then y # insert_sorted cmp x ys else x # y # ys)"

fun array_sort :: "('a \<Rightarrow> 'a \<Rightarrow> js_number) \<Rightarrow> 'a list \<Rightarrow> 'a list" where
  "array_sort cmp [] = []"
| "array_sort cmp (x # xs) = insert_sorted cmp x (array_sort cmp xs)"

definition preferred :: "WidthPreference \<Rightarrow> TireWithScore list \<Rightarrow> TireWithScore list" where
  "preferred widthPref ts = array_sort by_score_desc (preferred_unsorted widthPref ts)"

definition others :: "WidthPreference \<Rightarrow> TireWithScore list \<Rightarrow> TireWithScore list" where
  "others widthPref ts = array_sort by_score_desc (others_unsorted widthPref ts)"

text \<open>The \<^verbatim>\<open>while (top3.length < 3)\<close> loop with its two indices (lines 129 to 142).\<close>

function top3_loop :: "'a list \<Rightarrow> 'a list \<Rightarrow> 'a list \<Rightarrow> nat \<Rightarrow> nat \<Rightarrow> 'a list" where
  "top3_loop ps os acc i j =
     (if length acc < 3 then
        (if i < length ps then top3_loop ps os (acc @ [ps ! i]) (i + 1) j
         else if j < length os then top3_loop ps os (acc @ [os ! j]) i (j + 1)
         else acc)
      else acc)"
  by pat_completeness auto
termination
  by (relation "measure (\<lambda>(ps, os, acc, i, j). 3 - length acc)") auto

declare top3_loop.simps [simp del]

definition top3 :: "WetPreference \<Rightarrow> WidthPreference \<Rightarrow> Tire list \<Rightarrow> TireWithScore list" where
  "top3 wetPref widthPref data_rows =
     (let scored = tiresWithScore wetPref data_rows
      in top3_loop (preferred widthPref scored) (others widthPref scored) [] 0 0)"

subsection \<open>Explanations and the whole handler (lines 89 to 186)\<close>

text \<open>
  \<^verbatim>\<open>supabase.functions.invoke\<close> is an external asynchronous call. Its promise either
  resolves with an object \<^verbatim>\<open>{ data, error }\<close> or rejects. In \<open>Resolved d e\<close>, \<open>d\<close> is
  \<^verbatim>\<open>data\<close> (\<^term>\<open>None\<close> for \<^verbatim>\<open>null\<close>, \<open>Some x\<close> for an object whose property
  \<^verbatim>\<open>explanation\<close> is \<open>x\<close>) and \<open>e\<close> is \<^verbatim>\<open>error\<close> (\<^term>\<open>None\<close> for \<^verbatim>\<open>null\<close>,
  otherwise the error as its message).
\<close>

datatype invoke_outcome = Resolved "string option" "string option" | Rejected string

datatype thrown =
    SelectError string
  | InvokeRejected string
  | TypeError_reading_explanation_of_null

type_synonym explain_tires = "TireWithScore \<Rightarrow> WetPreference \<Rightarrow> invoke_outcome"

text \<open>
  The test \<^verbatim>\<open>if (error)\<close> on such a value: \<^verbatim>\<open>null\<close> and the empty string are
  falsy.
\<close>

definition truthy :: "string option \<Rightarrow> bool" where
  "truthy v = (case v of None \<Rightarrow> False | Some s \<Rightarrow> s \<noteq> [])"

text \<open>
  The asynchronous callback of \<^verbatim>\<open>top3.map\<close> (lines 146 to 163). It has no
  \<^verbatim>\<open>try\<close>: a rejected call, or reading \<^verbatim>\<open>explanation.explanation\<close> of a
  \<^verbatim>\<open>null\<close> payload, rejects the callback's own promise.
\<close>

definition explain_one :: "explain_tires \<Rightarrow> WetPreference \<Rightarrow> TireWithScore \<Rightarrow> thrown + TireWithScore" where
  "explain_one invoke wetPref tire =
     (case invoke tire wetPref of
        Rejected e \<Rightarrow> Inl (InvokeRejected e)
      | Resolved explanation_data explanationError \<Rightarrow>
          (if truthy explanationError then
             Inr (tire\<lparr>explanation := generateReason tire wetPref\<rparr>)
           else
             (case explanation_data of
                None \<Rightarrow> Inl TypeError_reading_explanation_of_null
              | Some e \<Rightarrow> Inr (tire\<lparr>explanation := e\<rparr>))))"

text \<open>
  \<^verbatim>\<open>Promise.all\<close>: fulfilled with all the values, in order, when every promise is
  fulfilled; otherwise rejected with the reason of the promise that rejects first in
  time. The order in time is not part of the model: a rejected batch carries the reasons
  of all the rejected promises, one of which is the reason reported.
\<close>

primrec rejections :: "('e + 'a) list \<Rightarrow> 'e list" where
  "rejections [] = []"
| "rejections (p # ps) = (case p of Inl e \<Rightarrow> e # rejections ps | Inr v \<Rightarrow> rejections ps)"

primrec fulfilments :: "('e + 'a) list \<Rightarrow> 'a list" where
  "fulfilments [] = []"
| "fulfilments (p # ps) = (case p of Inl e \<Rightarrow> fulfilments ps | Inr v \<Rightarrow> v # fulfilments ps)"

definition promise_all :: "('e + 'a) list \<Rightarrow> 'e list + 'a list" where
  "promise_all ps = (if rejections ps = [] then Inr (fulfilments ps) else Inl (rejections ps))"

definition explainedTop3 :: "explain_tires \<Rightarrow> WetPreference \<Rightarrow> TireWithScore list \<Rightarrow> thrown list + TireWithScore list" where
  "explainedTop3 invoke wetPref top3_items = promise_all (map (explain_one invoke wetPref) top3_items)"

text \<open>The result \<^verbatim>\<open>{ data, error }\<close> of \<^verbatim>\<open>supabase.from("tires").select("*")\<close>.\<close>

record select_result =
  sel_data :: "Tire list option"
  sel_error :: "string option"

text \<open>
  The body of the \<^verbatim>\<open>try\<close> block: \<open>Inl es\<close> says that one of \<open>es\<close> reaches
  \<^verbatim>\<open>catch\<close>. Line 96 is \<^verbatim>\<open>if (error) throw error\<close>, line 99 reads
  \<^verbatim>\<open>data || []\<close>.
\<close>

definition generate_try :: "select_result \<Rightarrow> explain_tires \<Rightarrow> WetPreference \<Rightarrow> WidthPreference \<Rightarrow> thrown list + TireWithScore list" where
  "generate_try sel invoke wetPref widthPref =
     (if truthy (sel_error sel) then
        Inl [SelectError (case sel_error sel of None \<Rightarrow> [] | Some e \<Rightarrow> e)]
      else
        explainedTop3 invoke wetPref
          (top3 wetPref widthPref (case sel_data sel of None \<Rightarrow> [] | Some rows \<Rightarrow> rows)))"

record ui_state =
  results :: "TireWithScore list"
  showResults :: bool
  loading :: bool
  feedback :: "string option"

text \<open>
  \<^verbatim>\<open>handleGenerate\<close> on the component's state. The \<^verbatim>\<open>catch\<close> branch only logs; the
  analytics event after \<^verbatim>\<open>setShowResults\<close> changes no state and is left out.
\<close>

definition handleGenerate :: "select_result \<Rightarrow> explain_tires \<Rightarrow> WetPreference \<Rightarrow> WidthPreference \<Rightarrow> ui_state \<Rightarrow> ui_state" where
  "handleGenerate sel invoke wetPref widthPref st =
     (let st1 = st\<lparr>loading := True, feedback := None\<rparr>
      in case generate_try sel invoke wetPref widthPref of
           Inl err \<Rightarrow> st1\<lparr>loading := False\<rparr>
         | Inr explained \<Rightarrow> st1\<lparr>results := explained, showResults := True, loading := False\<rparr>)"

section \<open>Webhook relay (the second source file)\<close>

datatype json =
    JNull
  | JBool bool
  | JNum rat
  | JStr string
  | JArr "json list"
  | JObj "(string \<times> json) list"

text \<open>
  A request: \<^verbatim>\<open>req.method\<close> and \<^verbatim>\<open>req.body\<close>, where \<^term>\<open>None\<close> is
  \<^verbatim>\<open>undefined\<close>. An object lists each of its properties once.
\<close>

record request =
  req_method :: string
  req_body :: "json option"

text \<open>
  \<^verbatim>\<open>req.body?.text\<close>: \<^verbatim>\<open>undefined\<close> when the body is \<^verbatim>\<open>null\<close> or
  \<^verbatim>\<open>undefined\<close>, and when the body has no property \<^verbatim>\<open>text\<close>.
\<close>

definition body_text :: "json option \<Rightarrow> json option" where
  "body_text b =
     (case b of
        Some (JObj props) \<Rightarrow> map_of props ''text''
      | _ \<Rightarrow> None)"

definition buildPayload :: "string \<Rightarrow> json" where
  "buildPayload text =
     JObj [(''msg_type'', JStr ''text''), (''content'', JObj [(''text'', JStr text)])]"

text \<open>
  The argument of \<^verbatim>\<open>fetch\<close>; \<open>fi_body\<close> is the value handed to
  \<^verbatim>\<open>JSON.stringify\<close>, standing for its JSON text.
\<close>

record fetch_init =
  fi_method :: string
  fi_headers :: "(string \<times> string) list"
  fi_body :: json

datatype fetch_outcome = Response nat string | NetworkError

text \<open>\<^verbatim>\<open>response.ok\<close>: the status is in the range 200 to 299.\<close>

definition response_ok :: "nat \<Rightarrow> bool" where
  "response_ok st = (200 \<le> st \<and> st \<le> 299)"

record http_response =
  resp_status :: nat
  resp_body :: string

text \<open>
  What the handler did: the calls of \<^verbatim>\<open>fetch\<close> it made, and the response it sent
  (\<^term>\<open>None\<close> when \<^verbatim>\<open>fetch\<close> rejected and the handler's promise with it). The
  environment variable \<^verbatim>\<open>FEISHU_WEBHOOK\<close> is the parameter \<open>env_webhook\<close>.
\<close>

record handler_run =
  fetch_calls :: "(string \<times> fetch_init) list"
  sent :: "http_response option"

definition handler :: "string option \<Rightarrow> (string \<Rightarrow> fetch_init \<Rightarrow> fetch_outcome) \<Rightarrow> request \<Rightarrow> handler_run" where
  "handler env_webhook fetch req =
     (if req_method req \<noteq> ''POST'' then
        \<lparr>fetch_calls = [], sent = Some \<lparr>resp_status = 405, resp_body = ''Method Not Allowed''\<rparr>\<rparr>
      else
        (case env_webhook of
           None \<Rightarrow> \<lparr>fetch_calls = [], sent = Some \<lparr>resp_status = 500, resp_body = ''Missing FEISHU_WEBHOOK''\<rparr>\<rparr>
         | Some webhook \<Rightarrow>
             if webhook = [] then
               \<lparr>fetch_calls = [], sent = Some \<lparr>resp_status = 500, resp_body = ''Missing FEISHU_WEBHOOK''\<rparr>\<rparr>
             else
               (let text = (case body_text (req_body req) of Some (JStr s) \<Rightarrow> Some s | _ \<Rightarrow> None)
                in case text of
                     None \<Rightarrow> \<lparr>fetch_calls = [], sent = Some \<lparr>resp_status = 400, resp_body = ''Invalid payload''\<rparr>\<rparr>
                   | Some t \<Rightarrow>
                       if t = [] then
                         \<lparr>fetch_calls = [], sent = Some \<lparr>resp_status = 400, resp_body = ''Invalid payload''\<rparr>\<rparr>
                       else
                         (let init = \<lparr>fi_method = ''POST'',
                                      fi_headers = [(''Content-Type'', ''application/json'')],
                                      fi_body = buildPayload t\<rparr>
                          in case fetch webhook init of
                               NetworkError \<Rightarrow> \<lparr>fetch_calls = [(webhook, init)], sent = None\<rparr>
                             | Response st errText \<Rightarrow>
                                 if \<not> response_ok st then
                                   \<lparr>fetch_calls = [(webhook, init)],
                                    sent = Some \<lparr>resp_status = st, resp_body = errText\<rparr>\<rparr>
                                 else
                                   \<lparr>fetch_calls = [(webhook, init)],
                                    sent = Some \<lparr>resp_status = 200, resp_body = ''ok''\<rparr>\<rparr>))))"

section \<open>The specification's tables\<close>

text \<open>
  The definitions of this section follow the words of the specification, not the code;
  the theorems below compare them with the code.
\<close>

text \<open>Section 4.1, step 2: the weight pair \<open>(wg_weight, rr_weight)\<close> of each preference.\<close>

definition spec_weights :: "WetPreference \<Rightarrow> rat \<times> rat" where
  "spec_weights p = (case p of Very \<Rightarrow> (0.8, 0.2) | Normal \<Rightarrow> (0.6, 0.4) | NotWet \<Rightarrow> (0.35, 0.65))"

text \<open>
  Section 4.1, step 3: \<open>score = wg * wg_weight + rr_norm * rr_weight\<close>, in the arithmetic
  of JavaScript numbers, with the weights as decimal literals.
\<close>

definition spec_score :: "rat \<times> rat \<Rightarrow> js_number \<Rightarrow> js_number \<Rightarrow> js_number" where
  "spec_score ws wg_v rr_norm = js_add (js_mul wg_v (lit (fst ws))) (js_mul rr_norm (lit (snd ws)))"

text \<open>
  The measurements of a fetched row are binary64 values, so none is beyond
  \<^verbatim>\<open>Number.MAX_VALUE\<close>.
\<close>

definition measurements_in_range :: "Tire \<Rightarrow> bool" where
  "measurements_in_range t =
     (\<bar>to_number (wet_center t)\<bar> \<le> MAX_VALUE \<and> \<bar>to_number (wet_edge t)\<bar> \<le> MAX_VALUE \<and>
      \<bar>to_number (rr_high_w t)\<bar> \<le> MAX_VALUE)"

text \<open>Section 4.1, step 4: narrow is \<open>{28}\<close>, wide is \<open>{30, 32}\<close>.\<close>

definition spec_width_set :: "WidthPreference \<Rightarrow> rat set" where
  "spec_width_set w = (case w of W28 \<Rightarrow> {28} | Wider \<Rightarrow> {30, 32})"

definition spec_preferred :: "WidthPreference \<Rightarrow> TireWithScore \<Rightarrow> bool" where
  "spec_preferred w t = (case width_spec_mm t of None \<Rightarrow> False | Some v \<Rightarrow> v \<in> spec_width_set w)"

text \<open>A candidate is eligible when the three measurements are present (section 3).\<close>

definition eligible :: "('a Tire_scheme) \<Rightarrow> bool" where
  "eligible t = (wet_center t \<noteq> None \<and> wet_edge t \<noteq> None \<and> rr_high_w t \<noteq> None)"

text \<open>Section 4.1, step 7: the table of fallback explanations, read top to bottom.\<close>

datatype explanation_tag =
    Wet_priority_strong_grip
  | Acceptable_wet_performance
  | Efficiency_optimized_low_resistance
  | Balanced
  | All_around_wet_efficient
  | Wet_focused_acceptable_efficiency
  | Efficiency_focused_acceptable_wet
  | Balanced_daily_use

definition spec_table :: "(WetPreference \<times> (rat \<Rightarrow> rat \<Rightarrow> bool) \<times> explanation_tag) list" where
  "spec_table =
     [(Very, (\<lambda>wg_v rr_v. wg_v \<ge> 75), Wet_priority_strong_grip),
      (Very, (\<lambda>wg_v rr_v. True), Acceptable_wet_performance),
      (NotWet, (\<lambda>wg_v rr_v. rr_v \<le> 12), Efficiency_optimized_low_resistance),
      (NotWet, (\<lambda>wg_v rr_v. True), Balanced),
      (Normal, (\<lambda>wg_v rr_v. wg_v \<ge> 75 \<and> rr_v \<le> 12), All_around_wet_efficient),
      (Normal, (\<lambda>wg_v rr_v. wg_v \<ge> 75), Wet_focused_acceptable_efficiency),
      (Normal, (\<lambda>wg_v rr_v. rr_v \<le> 12), Efficiency_focused_acceptable_wet),
      (Normal, (\<lambda>wg_v rr_v. True), Balanced_daily_use)]"

fun first_match :: "(WetPreference \<times> (rat \<Rightarrow> rat \<Rightarrow> bool) \<times> explanation_tag) list \<Rightarrow>
    WetPreference \<Rightarrow> rat \<Rightarrow> rat \<Rightarrow> explanation_tag option" where
  "first_match [] p wg_v rr_v = None"
| "first_match ((q, cond, tag) # rest) p wg_v rr_v =
     (if q = p \<and> cond wg_v rr_v then Some tag else first_match rest p wg_v rr_v)"

text \<open>The literal of \<^verbatim>\<open>generateReason\<close> that each tag of the table stands for.\<close>

definition tag_text :: "explanation_tag \<Rightarrow> string" where
  "tag_text tag =
     (case tag of
        Wet_priority_strong_grip \<Rightarrow> reason_very_wgStrong
      | Acceptable_wet_performance \<Rightarrow> reason_very_else
      | Efficiency_optimized_low_resistance \<Rightarrow> reason_not_rrLow
      | Balanced \<Rightarrow> reason_not_else
      | All_around_wet_efficient \<Rightarrow> reason_normal_both
      | Wet_focused_acceptable_efficiency \<Rightarrow> reason_normal_wgStrong
      | Efficiency_focused_acceptable_wet \<Rightarrow> reason_normal_rrLow
      | Balanced_daily_use \<Rightarrow> reason_normal_else)"

text \<open>
  Section 4.1, step 7 and section 4.1 "failure conditions": an item whose explanation call
  resolved with a payload and no error carries the provider's explanation; an item whose
  call failed carries the fallback explanation.
\<close>

definition explained :: "explain_tires \<Rightarrow> WetPreference \<Rightarrow> TireWithScore \<Rightarrow> TireWithScore" where
  "explained invoke wetPref tire =
     (case invoke tire wetPref of
        Resolved (Some e) err \<Rightarrow>
          if truthy err then tire\<lparr>explanation := generateReason tire wetPref\<rparr>
          else tire\<lparr>explanation := e\<rparr>
      | _ \<Rightarrow> tire\<lparr>explanation := generateReason tire wetPref\<rparr>)"

text \<open>
  The calls that the callback of lines 146 to 163 survives: the promise resolved, with an
  error or with a payload.
\<close>

definition settles :: "explain_tires \<Rightarrow> WetPreference \<Rightarrow> TireWithScore \<Rightarrow> bool" where
  "settles invoke wetPref tire =
     (case invoke tire wetPref of
        Resolved d e \<Rightarrow> truthy e \<or> d \<noteq> None
      | Rejected _ \<Rightarrow> False)"

text \<open>\<^verbatim>\<open>data || []\<close> of line 99.\<close>

definition rows_of :: "select_result \<Rightarrow> Tire list" where
  "rows_of sel = (case sel_data sel of None \<Rightarrow> [] | Some rows \<Rightarrow> rows)"

text \<open>
  Section 6, the relay: the request that forwards a text to the webhook, and a response
  with a status and a body.
\<close>

definition relay_init :: "string \<Rightarrow> fetch_init" where
  "relay_init t =
     \<lparr>fi_method = ''POST'', fi_headers = [(''Content-Type'', ''application/json'')],
      fi_body = JObj [(''msg_type'', JStr ''text''), (''content'', JObj [(''text'', JStr t)])]\<rparr>"

definition replied :: "nat \<Rightarrow> string \<Rightarrow> http_response option" where
  "replied st b = Some \<lparr>resp_status = st, resp_body = b\<rparr>"

section \<open>Example inputs\<close>

text \<open>
  A row with the given identifier, width and measurements; the display columns are empty.
\<close>

definition mk_tire :: "string \<Rightarrow> rat option \<Rightarrow> rat option \<Rightarrow> rat option \<Rightarrow> rat option \<Rightarrow> Tire" where
  "mk_tire i w c e r =
     \<lparr>tire_id = i, brand = [], model = [], width_spec_mm = w, wet_center = c, wet_edge = e,
      rr_high_w = r, price = None, source_site = None\<rparr>"

definition example_rows :: "Tire list" where
  "example_rows =
     [mk_tire ''item1'' (Some 28) (Some 70) (Some 72) (Some 10),
      mk_tire ''item2'' (Some 30) (Some 90) (Some 92) (Some 8),
      mk_tire ''item3'' (Some 28) (Some 60) (Some 61) (Some 20)]"

text \<open>
  Further rows: a width group against a score, missing measurements, equal scores in the
  group that is not preferred.
\<close>

definition width_rows :: "Tire list" where
  "width_rows =
     [mk_tire ''wide-fast'' (Some 30) (Some 90) (Some 92) (Some 8),
      mk_tire ''no-width'' None (Some 80) (Some 80) (Some 10),
      mk_tire ''narrow-slow'' (Some 28) (Some 60) (Some 61) (Some 20)]"

definition elig_rows :: "Tire list" where
  "elig_rows =
     [mk_tire ''a'' (Some 32) (Some 80) (Some 82) (Some 9),
      mk_tire ''b'' (Some 30) None (Some 95) (Some 5),
      mk_tire ''c'' (Some 28) (Some 70) (Some 75) (Some 11),
      mk_tire ''d'' (Some 30) (Some 88) (Some 85) None,
      mk_tire ''e'' (Some 30) (Some 60) (Some 65) (Some 14),
      mk_tire ''f'' (Some 28) (Some 77) (Some 79) (Some 12)]"

definition tie_rows :: "Tire list" where
  "tie_rows =
     [mk_tire ''wide-a'' (Some 32) (Some 70) (Some 72) (Some 10),
      mk_tire ''narrow'' (Some 28) (Some 60) (Some 61) (Some 20),
      mk_tire ''wide-b'' (Some 30) (Some 90) (Some 92) (Some 8),
      mk_tire ''wide-c'' (Some 30) (Some 72) (Some 70) (Some 10)]"

text \<open>
  Two rows whose scores for the wet preference "normal" are equal in exact arithmetic
  (45.6) and differ after rounding.
\<close>

definition rounding_rows :: "Tire list" where
  "rounding_rows =
     [mk_tire ''A'' (Some 28) (Some 62) (Some 62) (Some 9),
      mk_tire ''B'' (Some 28) (Some 64) (Some 64) (Some 12)]"

text \<open>
  Explanation providers that answer every tire but item3: one returns an error for it,
  one rejects, one resolves with neither payload nor error.
\<close>

definition failing_invoke :: explain_tires where
  "failing_invoke tire wetPref =
     (if tire_id tire = ''item3'' then Resolved None (Some ''quota'')
      else Resolved (Some (''about '' @ tire_id tire)) None)"

definition rejecting_invoke :: explain_tires where
  "rejecting_invoke tire wetPref =
     (if tire_id tire = ''item3'' then Rejected ''network''
      else Resolved (Some (''about '' @ tire_id tire)) None)"

definition null_invoke :: explain_tires where
  "null_invoke tire wetPref =
     (if tire_id tire = ''item3'' then Resolved None None
      else Resolved (Some (''about '' @ tire_id tire)) None)"

definition example_select :: select_result where
  "example_select = \<lparr>sel_data = Some example_rows, sel_error = None\<rparr>"

definition initial_state :: ui_state where
  "initial_state = \<lparr>results = [], showResults = False, loading = False, feedback = None\<rparr>"

text \<open>Relay requests with a \<^verbatim>\<open>text\<close> property, and an upstream with a fixed answer.\<close>

definition text_request :: "string \<Rightarrow> json \<Rightarrow> request" where
  "text_request m v = \<lparr>req_method = m, req_body = Some (JObj [(''text'', v)])\<rparr>"

definition upstream :: "nat \<Rightarrow> string \<Rightarrow> string \<Rightarrow> fetch_init \<Rightarrow> fetch_outcome" where
  "upstream st b url init = Response st b"


section \<open>Properties\<close>

subsection \<open>Rounding to binary64\<close>

lemma pow2_div: "(2::rat) powi a / 2 powi b = 2 powi (a - b)"
  by (simp add: power_int_diff)

lemma pow2_add: "(2::rat) powi (a + b) = 2 powi a * 2 powi b"
  by (simp add: power_int_add)

lemma quotient_of_cases:
  obtains p q where "quotient_of x = (p, q)" "0 < q" "x = of_int p / of_int q"
proof (cases "quotient_of x")
  case (Pair p q)
  then have "0 < q" by (rule quotient_of_denom_pos)
  moreover from Pair have "x = of_int p / of_int q" by (rule quotient_of_div)
  ultimately show thesis using Pair that by blast
qed

lemma bitlen_rat_bounds:
  assumes "0 < (p::int)"
  shows "(2::rat) powi (bitlen p - 1) \<le> of_int p" "of_int p < (2::rat) powi bitlen p"
proof -
  from assms have b: "1 \<le> bitlen p"
    using bitlen_eq_zero_iff [of p] bitlen_nonneg [of p] by linarith
  from bitlen_bounds [OF assms] have "2 ^ nat (bitlen p - 1) \<le> p" "p < 2 ^ nat (bitlen p)"
    by simp_all
  then have "(of_int (2 ^ nat (bitlen p - 1)) :: rat) \<le> of_int p" "(of_int p :: rat) < of_int (2 ^ nat (bitlen p))"
    by (simp_all only: of_int_le_iff of_int_less_iff)
  then show "(2::rat) powi (bitlen p - 1) \<le> of_int p" "of_int p < (2::rat) powi bitlen p"
    using b by (simp_all add: power_int_def)
qed

lemma ilog2_bounds:
  assumes "0 < x"
  shows "2 powi ilog2 x \<le> x" "x < 2 powi (ilog2 x + 1)"
proof -
  obtain p q where pq: "quotient_of x = (p, q)" "0 < q" "x = of_int p / of_int q"
    by (rule quotient_of_cases)
  from assms pq(2,3) have p: "0 < p" by (simp add: zero_less_divide_iff)
  let ?k = "bitlen p - bitlen q"
  note P = bitlen_rat_bounds [OF p] and Q = bitlen_rat_bounds [OF pq(2)]
  have qpos: "(0::rat) < of_int q" using pq(2) by simp
  have up: "x < 2 powi (?k + 1)"
  proof -
    have "x * 2 powi (bitlen q - 1) \<le> x * of_int q"
      using Q(1) assms by (simp add: mult_left_mono)
    also have "\<dots> = of_int p" using pq(3) qpos by simp
    also have "\<dots> < 2 powi bitlen p" by (rule P(2))
    finally have "x < 2 powi bitlen p / 2 powi (bitlen q - 1)"
      by (simp add: pos_less_divide_eq)
    also have "\<dots> = 2 powi (bitlen p - (bitlen q - 1))" by (rule pow2_div)
    finally have "x < 2 powi (bitlen p - (bitlen q - 1))" .
    moreover have "bitlen p - (bitlen q - 1) = ?k + 1" by simp
    ultimately show ?thesis by (simp only:)
  qed
  have lo: "2 powi (?k - 1) < x"
  proof -
    have "(2::rat) powi (bitlen p - 1) \<le> of_int p" by (rule P(1))
    also have "\<dots> = x * of_int q" using pq(3) qpos by simp
    also have "\<dots> < x * 2 powi bitlen q"
      using Q(2) assms by (simp add: mult_strict_left_mono)
    finally have "2 powi (bitlen p - 1) / 2 powi bitlen q < x"
      by (simp add: pos_divide_less_eq)
    then have "2 powi (bitlen p - 1 - bitlen q) < x" by (simp only: pow2_div)
    moreover have "bitlen p - 1 - bitlen q = ?k - 1" by simp
    ultimately show ?thesis by (simp only:)
  qed
  have il: "ilog2 x = (if 2 powi ?k \<le> x then ?k else ?k - 1)"
    by (simp add: ilog2_def pq(1) Let_def)
  show "2 powi ilog2 x \<le> x"
    using lo by (simp add: il less_imp_le)
  show "x < 2 powi (ilog2 x + 1)"
    using up by (simp add: il not_le)
qed

lemma pow2_mono: "a \<le> b \<Longrightarrow> (2::rat) powi a \<le> 2 powi b"
  by (rule power_int_increasing) simp_all

lemma pow2_less_imp:
  assumes "(2::rat) powi a < 2 powi b"
  shows "a < b"
proof (rule ccontr)
  assume "\<not> a < b"
  then have "(2::rat) powi b \<le> 2 powi a" by (intro pow2_mono) simp
  with assms show False by simp
qed

lemma ilog2_unique:
  assumes "0 < x" "2 powi e \<le> x" "x < 2 powi (e + 1)"
  shows "ilog2 x = e"
proof -
  from ilog2_bounds [OF assms(1)] assms(2,3)
  have "(2::rat) powi ilog2 x < 2 powi (e + 1)" "(2::rat) powi e < 2 powi (ilog2 x + 1)"
    by simp_all
  then have "ilog2 x < e + 1" "e < ilog2 x + 1" using pow2_less_imp by blast+
  then show ?thesis by simp
qed

lemma ilog2_mono:
  assumes "0 < x" "x \<le> y"
  shows "ilog2 x \<le> ilog2 y"
proof -
  from assms have y: "0 < y" by simp
  from ilog2_bounds(1) [OF assms(1)] ilog2_bounds(2) [OF y] assms(2)
  have "(2::rat) powi ilog2 x < 2 powi (ilog2 y + 1)" by simp
  then have "ilog2 x < ilog2 y + 1" by (rule pow2_less_imp)
  then show ?thesis by simp
qed


lemma rhe_cases: "round_half_even y = \<lfloor>y\<rfloor> \<or> round_half_even y = \<lfloor>y\<rfloor> + 1"
  by (simp add: round_half_even_def Let_def)

lemma rhe_of_int: "round_half_even (of_int k) = k"
  by (simp add: round_half_even_def)

lemma rhe_mono:
  assumes "y \<le> z"
  shows "round_half_even y \<le> round_half_even z"
proof (cases "\<lfloor>y\<rfloor> < \<lfloor>z\<rfloor>")
  case True
  have "round_half_even y \<le> \<lfloor>y\<rfloor> + 1" using rhe_cases [of y] by linarith
  also have "\<dots> \<le> \<lfloor>z\<rfloor>" using True by simp
  also have "\<dots> \<le> round_half_even z" using rhe_cases [of z] by linarith
  finally show ?thesis .
next
  case False
  with floor_mono [OF assms] have eq: "\<lfloor>y\<rfloor> = \<lfloor>z\<rfloor>" by simp
  from assms have "y - of_int \<lfloor>z\<rfloor> \<le> z - of_int \<lfloor>z\<rfloor>" by simp
  then show ?thesis
    unfolding round_half_even_def Let_def eq by (simp split: if_splits)
qed

lemma rhe_unique:
  assumes "\<bar>y - of_int k\<bar> < 1 / 2"
  shows "round_half_even y = k"
proof (cases "of_int k \<le> y")
  case True
  with assms have "\<lfloor>y\<rfloor> = k" by (intro floor_unique) (simp_all add: abs_if split: if_splits)
  with assms True show ?thesis by (simp add: round_half_even_def)
next
  case False
  with assms have "\<lfloor>y\<rfloor> = k - 1" by (intro floor_unique) (simp_all add: abs_if split: if_splits)
  with assms False show ?thesis by (simp add: round_half_even_def abs_if split: if_splits)
qed

lemma pow2_pos: "(0::rat) < 2 powi k"
  by simp

lemma binade_upper: "0 < x \<Longrightarrow> x < 2 powi (binade x + 1)"
proof -
  assume x: "0 < x"
  have "x < 2 powi (ilog2 x + 1)" by (rule ilog2_bounds(2) [OF x])
  also have "\<dots> \<le> 2 powi (binade x + 1)" by (rule pow2_mono) (simp add: binade_def)
  finally show ?thesis .
qed

lemma binade_lower: "0 < x \<Longrightarrow> - 1022 < binade x \<Longrightarrow> 2 powi binade x \<le> x"
  using ilog2_bounds(1) [of x] by (simp add: binade_def max_def split: if_splits)

lemma binade_mono: "0 < x \<Longrightarrow> x \<le> y \<Longrightarrow> binade x \<le> binade y"
  using ilog2_mono [of x y] by (simp add: binade_def)

lemma binade_ge: "- 1022 \<le> binade x"
  by (simp add: binade_def)

lemma scaled_53: "(2::rat) powi (e + 1) / 2 powi (e - 52) = of_int (2 ^ 53)"
proof -
  have "(2::rat) powi (e + 1) / 2 powi (e - 52) = 2 powi (e + 1 - (e - 52))" by (rule pow2_div)
  also have "e + 1 - (e - 52) = 53" by simp
  finally show ?thesis by simp
qed

lemma scaled_52: "(2::rat) powi e / 2 powi (e - 52) = of_int (2 ^ 52)"
proof -
  have "(2::rat) powi e / 2 powi (e - 52) = 2 powi (e - (e - 52))" by (rule pow2_div)
  also have "e - (e - 52) = 52" by simp
  finally show ?thesis by simp
qed

lemma magnitude_upper:
  assumes "0 < x"
  shows "round_magnitude x \<le> 2 powi (binade x + 1)"
proof -
  let ?q = "(2::rat) powi (binade x - 52)"
  have "x / ?q \<le> 2 powi (binade x + 1) / ?q"
    using binade_upper [OF assms] by (simp add: divide_right_mono)
  then have "x / ?q \<le> of_int (2 ^ 53)" by (simp only: scaled_53)
  then have "round_half_even (x / ?q) \<le> 2 ^ 53"
    using rhe_mono [of "x / ?q" "of_int (2 ^ 53)"] by (simp only: rhe_of_int)
  then have "(of_int (round_half_even (x / ?q)) :: rat) \<le> of_int (2 ^ 53)"
    by (simp only: of_int_le_iff)
  then have "of_int (round_half_even (x / ?q)) * ?q \<le> of_int (2 ^ 53) * ?q"
    by (rule mult_right_mono) simp
  also have "of_int (2 ^ 53) * ?q = 2 powi (binade x + 1) / ?q * ?q" by (simp only: scaled_53)
  also have "\<dots> = 2 powi (binade x + 1)" by simp
  finally show ?thesis by (simp add: round_magnitude_def Let_def)
qed

lemma magnitude_lower:
  assumes "0 < x" "- 1022 < binade x"
  shows "2 powi binade x \<le> round_magnitude x"
proof -
  let ?q = "(2::rat) powi (binade x - 52)"
  have "2 powi binade x / ?q \<le> x / ?q"
    using binade_lower [OF assms] by (simp add: divide_right_mono)
  then have "of_int (2 ^ 52) \<le> x / ?q" by (simp only: scaled_52)
  then have "2 ^ 52 \<le> round_half_even (x / ?q)"
    using rhe_mono [of "of_int (2 ^ 52)" "x / ?q"] by (simp only: rhe_of_int)
  then have "(of_int (2 ^ 52) :: rat) \<le> of_int (round_half_even (x / ?q))"
    by (simp only: of_int_le_iff)
  then have le: "of_int (2 ^ 52) * ?q \<le> of_int (round_half_even (x / ?q)) * ?q"
    by (rule mult_right_mono) simp
  have "2 powi binade x = 2 powi binade x / ?q * ?q" by simp
  also have "\<dots> = of_int (2 ^ 52) * ?q" by (simp only: scaled_52)
  also note le
  finally show ?thesis by (simp add: round_magnitude_def Let_def)
qed

lemma magnitude_nonneg:
  assumes "0 < x"
  shows "0 \<le> round_magnitude x"
proof -
  let ?q = "(2::rat) powi (binade x - 52)"
  have "0 \<le> x / ?q" using assms by simp
  then have "round_half_even (of_int 0) \<le> round_half_even (x / ?q)"
    by (intro rhe_mono) simp
  then have "0 \<le> round_half_even (x / ?q)" by (simp only: rhe_of_int)
  then show ?thesis by (simp add: round_magnitude_def Let_def)
qed

lemma magnitude_mono:
  assumes "0 < x" "x \<le> y"
  shows "round_magnitude x \<le> round_magnitude y"
proof (cases "binade x = binade y")
  case True
  let ?q = "(2::rat) powi (binade y - 52)"
  have "x / ?q \<le> y / ?q" using assms(2) by (simp add: divide_right_mono)
  then have "round_half_even (x / ?q) \<le> round_half_even (y / ?q)" by (rule rhe_mono)
  then have "(of_int (round_half_even (x / ?q)) :: rat) \<le> of_int (round_half_even (y / ?q))"
    by (simp only: of_int_le_iff)
  then have "of_int (round_half_even (x / ?q)) * ?q \<le> of_int (round_half_even (y / ?q)) * ?q"
    by (rule mult_right_mono) simp
  then show ?thesis by (simp add: round_magnitude_def Let_def True)
next
  case False
  from assms have y: "0 < y" by simp
  from False binade_mono [OF assms] have lt: "binade x < binade y" by simp
  with binade_ge [of x] have "- 1022 < binade y" by simp
  have "round_magnitude x \<le> 2 powi (binade x + 1)" by (rule magnitude_upper [OF assms(1)])
  also have "\<dots> \<le> 2 powi binade y" using lt by (intro pow2_mono) simp
  also have "\<dots> \<le> round_magnitude y" by (rule magnitude_lower [OF y \<open>- 1022 < binade y\<close>])
  finally show ?thesis .
qed


lemma round_double_pos:
  "0 < x \<Longrightarrow> round_double x = (if 2 powi 1024 \<le> round_magnitude x then PInf else Fin (round_magnitude x))"
  by (simp add: round_double_def Let_def)

lemma round_double_neg:
  "x < 0 \<Longrightarrow> round_double x = (if 2 powi 1024 \<le> round_magnitude (- x) then NInf else Fin (- round_magnitude (- x)))"
  by (simp add: round_double_def Let_def)

lemma round_double_zero: "round_double 0 = Fin 0"
  by (simp add: round_double_def)

lemma round_double_minus: "round_double (- x) = js_neg (round_double x)"
  by (cases "x = 0"; cases "0 < x") (simp_all add: round_double_def Let_def)

lemma round_double_nonneg: "0 \<le> x \<Longrightarrow> js_le (Fin 0) (round_double x)"
  using magnitude_nonneg [of x] by (cases "x = 0") (simp_all add: round_double_zero round_double_pos)

lemma round_double_nonpos: "x \<le> 0 \<Longrightarrow> js_le (round_double x) (Fin 0)"
  using magnitude_nonneg [of "- x"] by (cases "x = 0") (simp_all add: round_double_zero round_double_neg)

lemma js_le_trans: "js_le a b \<Longrightarrow> js_le b c \<Longrightarrow> js_le a c"
  by (cases a; cases b; cases c) simp_all

lemma round_double_mono:
  assumes "x \<le> y"
  shows "js_le (round_double x) (round_double y)"
proof -
  consider (pos) "0 < x" | (neg) "y < 0" | (mixed) "x \<le> 0" "0 \<le> y" by linarith
  then show ?thesis
  proof cases
    case pos
    with assms have y: "0 < y" by simp
    from magnitude_mono [OF pos assms] show ?thesis
      by (simp add: round_double_pos pos y)
  next
    case neg
    with assms have x: "x < 0" by simp
    from neg assms have "0 < - y" "- y \<le> - x" by simp_all
    from magnitude_mono [OF this] show ?thesis
      by (simp add: round_double_neg neg x)
  next
    case mixed
    from round_double_nonpos [OF mixed(1)] round_double_nonneg [OF mixed(2)]
    show ?thesis by (rule js_le_trans)
  qed
qed

text \<open>Every finite result is a multiple of the smallest subnormal.\<close>

lemma magnitude_grid: "\<exists>k::int. round_magnitude x = of_int k * 2 powi (- 1074)"
proof -
  let ?r = "round_half_even (x / 2 powi (binade x - 52))"
  have "binade x - 52 = int (nat (binade x + 1022)) + (- 1074)"
    using binade_ge [of x] by simp
  then have "(2::rat) powi (binade x - 52) = 2 powi int (nat (binade x + 1022)) * 2 powi (- 1074)"
    by (simp only: pow2_add)
  also have "(2::rat) powi int (nat (binade x + 1022)) = of_int (2 ^ nat (binade x + 1022))"
    by (simp only: power_int_of_nat of_int_power of_int_numeral)
  finally have q: "(2::rat) powi (binade x - 52) = of_int (2 ^ nat (binade x + 1022)) * 2 powi (- 1074)" .
  have "round_magnitude x = of_int ?r * (of_int (2 ^ nat (binade x + 1022)) * 2 powi (- 1074))"
    unfolding round_magnitude_def Let_def by (subst (2) q) (rule refl)
  also have "\<dots> = of_int (?r * 2 ^ nat (binade x + 1022)) * 2 powi (- 1074)"
    by (simp only: of_int_mult mult.assoc)
  finally show ?thesis ..
qed

lemma round_double_grid:
  assumes "round_double x = Fin y"
  shows "\<exists>k::int. y = of_int k * 2 powi (- 1074)"
proof -
  obtain k1 :: int where k1: "round_magnitude x = of_int k1 * 2 powi (- 1074)"
    using magnitude_grid [of x] by blast
  obtain k2 :: int where k2: "round_magnitude (- x) = of_int k2 * 2 powi (- 1074)"
    using magnitude_grid [of "- x"] by blast
  consider "x = 0" | "0 < x" | "x < 0" by linarith
  then show ?thesis
  proof cases
    case 1
    with assms have "y = of_int 0 * 2 powi (- 1074)" by (simp add: round_double_zero)
    then show ?thesis ..
  next
    case 2
    with assms have "y = of_int k1 * 2 powi (- 1074)"
      by (simp add: round_double_pos k1 split: if_splits)
    then show ?thesis ..
  next
    case 3
    with assms have "y = of_int (- k2) * 2 powi (- 1074)"
      by (simp add: round_double_neg k2 split: if_splits)
    then show ?thesis ..
  qed
qed


lemma round_double_binade:
  assumes "0 < x" "- 1022 \<le> e" "2 powi e \<le> x" "x < 2 powi (e + 1)"
    and "round_half_even (x / 2 powi (e - 52)) = n"
    and "e \<le> 1022 \<or> (e = 1023 \<and> n < 2 ^ 53)"
  shows "round_double x = Fin (of_int n * 2 powi (e - 52))"
proof -
  have b: "binade x = e"
    using ilog2_unique [OF assms(1,3,4)] assms(2) by (simp add: binade_def)
  have m: "round_magnitude x = of_int n * 2 powi (e - 52)"
    by (simp add: round_magnitude_def Let_def b assms(5))
  have "round_magnitude x < 2 powi 1024"
  proof (cases "e \<le> 1022")
    case True
    have "round_magnitude x \<le> 2 powi (binade x + 1)" by (rule magnitude_upper [OF assms(1)])
    also have "\<dots> \<le> 2 powi 1023" unfolding b using True by (intro pow2_mono) simp
    also have "\<dots> < (2::rat) powi 1024" by simp
    finally show ?thesis .
  next
    case False
    with assms(6) have e: "e = 1023" and n: "n < 2 ^ 53" by simp_all
    from n have "(of_int n :: rat) < of_int (2 ^ 53)" by (simp only: of_int_less_iff)
    then have "of_int n * (2::rat) powi (e - 52) < of_int (2 ^ 53) * 2 powi (e - 52)"
      by (rule mult_strict_right_mono) simp
    also have "\<dots> = 2 powi 1024" by (simp add: e)
    finally show ?thesis by (simp only: m)
  qed
  then show ?thesis by (simp add: round_double_pos assms(1) m)
qed

lemma round_double_normal:
  assumes "0 < x" "- 1022 \<le> e" "2 powi e \<le> x" "x < 2 powi (e + 1)"
    and "\<bar>x / 2 powi (e - 52) - of_int n\<bar> < 1 / 2"
    and "e \<le> 1022 \<or> (e = 1023 \<and> n < 2 ^ 53)"
  shows "round_double x = Fin (of_int n * 2 powi (e - 52))"
  using assms(1-4) rhe_unique [OF assms(5)] assms(6) by (rule round_double_binade)

text \<open>A tie between two neighbours goes to the even one.\<close>

lemma rhe_tie: "round_half_even (of_int k + 1 / 2) = (if even k then k else k + 1)"
proof -
  have "\<lfloor>(of_int k + 1 / 2 :: rat)\<rfloor> = k" by (rule floor_unique) simp_all
  then show ?thesis by (simp add: round_half_even_def)
qed

lemma round_double_tie:
  assumes "0 < x" "- 1022 \<le> e" "2 powi e \<le> x" "x < 2 powi (e + 1)"
    and "x / 2 powi (e - 52) = of_int k + 1 / 2" "n = (if even k then k else k + 1)"
    and "e \<le> 1022 \<or> (e = 1023 \<and> n < 2 ^ 53)"
  shows "round_double x = Fin (of_int n * 2 powi (e - 52))"
proof -
  have "round_half_even (x / 2 powi (e - 52)) = n"
    by (simp only: assms(5,6) rhe_tie)
  with assms(1-4) show ?thesis using assms(7) by (rule round_double_binade)
qed

lemma round_double_subnormal:
  assumes "0 < x" "x < 2 powi (- 1022)"
    and "\<bar>x / 2 powi (- 1074) - of_int n\<bar> < 1 / 2"
  shows "round_double x = Fin (of_int n * 2 powi (- 1074))"
proof -
  from ilog2_bounds(1) [OF assms(1)] assms(2) have "(2::rat) powi ilog2 x < 2 powi (- 1022)" by simp
  then have "ilog2 x < - 1022" by (rule pow2_less_imp)
  then have b: "binade x = - 1022" by (simp add: binade_def)
  have m: "round_magnitude x = of_int n * 2 powi (- 1074)"
    using rhe_unique [OF assms(3)] by (simp add: round_magnitude_def Let_def b)
  have "round_magnitude x \<le> 2 powi (binade x + 1)" by (rule magnitude_upper [OF assms(1)])
  also have "\<dots> < (2::rat) powi 1024" by (simp add: b)
  finally show ?thesis by (simp add: round_double_pos assms(1) m)
qed

lemma round_smallest: "round_double (2 powi (- 1074)) = Fin (2 powi (- 1074))"
  using round_double_subnormal [of "2 powi (- 1074)" 1] by simp

lemma round_MAX_VALUE: "round_double MAX_VALUE = Fin MAX_VALUE"
  using round_double_normal [of MAX_VALUE 1023 "2 ^ 53 - 1"] by (simp add: MAX_VALUE_def)

lemma round_beyond_MAX_VALUE: "round_double (MAX_VALUE + 30) = Fin MAX_VALUE"
  using round_double_normal [of "MAX_VALUE + 30" 1023 "2 ^ 53 - 1"] by (simp add: MAX_VALUE_def)

lemma round_in_range:
  assumes "\<bar>x\<bar> \<le> MAX_VALUE + 30"
  obtains z where "round_double x = Fin z" "\<bar>z\<bar> \<le> MAX_VALUE"
proof -
  have lo: "round_double (- (MAX_VALUE + 30)) = Fin (- MAX_VALUE)"
    by (simp only: round_double_minus round_beyond_MAX_VALUE js_neg.simps)
  from assms have up: "x \<le> MAX_VALUE + 30" and low: "- (MAX_VALUE + 30) \<le> x" by linarith+
  have "js_le (round_double x) (round_double (MAX_VALUE + 30))"
    using up by (rule round_double_mono)
  moreover have "js_le (round_double (- (MAX_VALUE + 30))) (round_double x)"
    using low by (rule round_double_mono)
  ultimately have "js_le (round_double x) (Fin MAX_VALUE)" "js_le (Fin (- MAX_VALUE)) (round_double x)"
    by (simp_all only: lo round_beyond_MAX_VALUE)
  then show thesis using that by (cases "round_double x") simp_all
qed

lemma positive_round: "2 powi (- 1074) \<le> d \<Longrightarrow> js_positive (round_double d)"
proof -
  assume "2 powi (- 1074) \<le> d"
  then have "js_le (round_double (2 powi (- 1074))) (round_double d)" by (rule round_double_mono)
  then have "js_le (Fin (2 powi (- 1074))) (round_double d)" by (simp only: round_smallest)
  then show ?thesis by (cases "round_double d") simp_all
qed

lemma not_positive_round: "d \<le> 0 \<Longrightarrow> \<not> js_positive (round_double d)"
  using round_double_nonpos [of d] by (cases "round_double d") simp_all

lemma round_not_NaN: "round_double x \<noteq> NaN"
  by (simp add: round_double_def Let_def)

text \<open>On rounded values, the sign of a rounded difference is the sign of the difference.\<close>

lemma js_sub_positive:
  assumes "s1 = round_double x1" "s2 = round_double x2"
  shows "js_positive (js_sub s2 s1) = (js_le s1 s2 \<and> s1 \<noteq> s2)"
proof -
  have n: "s1 \<noteq> NaN" "s2 \<noteq> NaN"
    unfolding assms by (rule round_not_NaN)+
  show ?thesis
  proof (cases "\<exists>a b. s1 = Fin a \<and> s2 = Fin b")
    case True
    then obtain a b where a: "s1 = Fin a" and b: "s2 = Fin b" by blast
    obtain ka :: int where ka: "a = of_int ka * 2 powi (- 1074)"
      using round_double_grid [of x1 a] assms(1) a by auto
    obtain kb :: int where kb: "b = of_int kb * 2 powi (- 1074)"
      using round_double_grid [of x2 b] assms(2) b by auto
    have d: "b + - a = of_int (kb - ka) * 2 powi (- 1074)"
      unfolding ka kb by (simp only: of_int_diff algebra_simps)
    have s: "js_sub s2 s1 = round_double (b + - a)"
      by (simp only: a b js_sub_def js_neg.simps js_add.simps)
    show ?thesis
    proof (cases "a < b")
      case True
      then have "0 < b + - a" by simp
      then have "0 < (of_int (kb - ka) :: rat)"
        unfolding d using pow2_pos [of "- 1074"] by (auto simp: zero_less_mult_iff)
      then have "0 < kb - ka" by (simp only: of_int_0_less_iff)
      then have "1 \<le> kb - ka" by simp
      then have "(of_int 1 :: rat) \<le> of_int (kb - ka)" by (simp only: of_int_le_iff)
      then have "(1::rat) \<le> of_int (kb - ka)" by (simp only: of_int_1)
      then have "1 * 2 powi (- 1074) \<le> of_int (kb - ka) * (2::rat) powi (- 1074)"
        by (rule mult_right_mono) (rule less_imp_le, rule pow2_pos)
      then have "2 powi (- 1074) \<le> b + - a" by (simp only: d mult_1)
      from positive_round [OF this] True show ?thesis by (simp only: s) (simp add: a b)
    next
      case False
      then have "b + - a \<le> 0" by simp
      from not_positive_round [OF this] False show ?thesis by (simp only: s) (auto simp: a b)
    qed
  next
    case False
    with n show ?thesis by (cases s1; cases s2) (simp_all add: js_sub_def)
  qed
qed


subsection \<open>The order of JavaScript numbers\<close>

lemma js_le_refl: "s \<noteq> NaN \<Longrightarrow> js_le s s"
  by (cases s) simp_all

lemma js_le_total: "a \<noteq> NaN \<Longrightarrow> b \<noteq> NaN \<Longrightarrow> js_le a b \<or> js_le b a"
  by (cases a; cases b) auto

lemma js_le_antisym: "js_le a b \<Longrightarrow> js_le b a \<Longrightarrow> a = b"
  by (cases a; cases b) simp_all

lemma not_positive_self: "\<not> js_positive (js_sub s s)"
  by (cases s) (simp_all add: js_sub_def round_double_zero)

lemma rounded_not_NaN: "s \<in> range round_double \<Longrightarrow> s \<noteq> NaN"
  using round_not_NaN by auto

lemma positive_difference:
  assumes "s1 \<in> range round_double" "s2 \<in> range round_double"
  shows "js_positive (js_sub s2 s1) = (js_le s1 s2 \<and> s1 \<noteq> s2)"
proof -
  from assms obtain x1 x2 where "s1 = round_double x1" "s2 = round_double x2" by auto
  then show ?thesis by (rule js_sub_positive)
qed

text \<open>The two rules that decide the comparator on concrete scores.\<close>

lemma positive_round_eval:
  "2 powi (- 1074) \<le> d \<Longrightarrow> js_positive (round_double d) = True"
  "d \<le> 0 \<Longrightarrow> js_positive (round_double d) = False"
  using positive_round [of d] not_positive_round [of d] by simp_all

subsection \<open>The loop, the records and the sort\<close>

text \<open>
  The loop collects the first three items of the preferred list followed by the others.
\<close>

lemma top3_loop_eq:
  "top3_loop ps os acc i j = acc @ take (3 - length acc) (drop i ps @ drop j os)"
proof (induction ps os acc i j rule: top3_loop.induct)
  case (1 ps os acc i j)
  show ?case
  proof (cases "length acc < 3")
    case False
    then show ?thesis by (simp add: top3_loop.simps [of ps os acc i j])
  next
    case True
    then obtain k where k: "3 - length acc = Suc k" "3 - length (acc @ [undefined]) = k"
      by (cases "3 - length acc") auto
    show ?thesis
    proof (cases "i < length ps")
      case i: True
      have "top3_loop ps os acc i j = top3_loop ps os (acc @ [ps ! i]) (i + 1) j"
        using True i by (simp add: top3_loop.simps [of ps os acc i j])
      also have "\<dots> = (acc @ [ps ! i]) @ take k (drop (Suc i) ps @ drop j os)"
        using "1.IH"(1) [OF True i] k by (simp del: take_append)
      also have "\<dots> = acc @ take (Suc k) (drop i ps @ drop j os)"
        using i by (simp del: take_append flip: Cons_nth_drop_Suc)
      finally show ?thesis using k by simp
    next
      case i: False
      show ?thesis
      proof (cases "j < length os")
        case j: True
        have "top3_loop ps os acc i j = top3_loop ps os (acc @ [os ! j]) i (j + 1)"
          using True i j by (simp add: top3_loop.simps [of ps os acc i j])
        also have "\<dots> = (acc @ [os ! j]) @ take k (drop i ps @ drop (Suc j) os)"
          using "1.IH"(2) [OF True i j] k by (simp del: take_append)
        also have "\<dots> = acc @ take (Suc k) (drop i ps @ drop j os)"
          using i j by (simp del: take_append flip: Cons_nth_drop_Suc)
        finally show ?thesis using k by (simp del: take_append)
      next
        case j: False
        then show ?thesis using True i
          by (simp add: top3_loop.simps [of ps os acc i j])
      qed
    qed
  qed
qed

lemma top3_eq:
  "top3 wetPref widthPref rows =
     take 3 (preferred widthPref (tiresWithScore wetPref rows) @ others widthPref (tiresWithScore wetPref rows))"
  by (simp add: top3_def Let_def top3_loop_eq)

lemma truncate_with_score [simp]: "Tire.truncate (with_score w t) = t"
  by (simp add: with_score_def Let_def Tire.defs TireWithScore.defs)

lemma with_score_fields [simp]:
  "width_spec_mm (with_score w t) = width_spec_mm t"
  "wet_center (with_score w t) = wet_center t"
  "wet_edge (with_score w t) = wet_edge t"
  "rr_high_w (with_score w t) = rr_high_w t"
  "tire_id (with_score w t) = tire_id t"
  "explanation (with_score w t) = []"
  "wg (with_score w t) = min (to_number (wet_center t)) (to_number (wet_edge t))"
  "rr (with_score w t) = to_number (rr_high_w t)"
  "score (with_score w t) =
     calc_score w (Fin (min (to_number (wet_center t)) (to_number (wet_edge t))))
       (js_sub (Fin 30) (Fin (to_number (rr_high_w t))))"
  by (simp_all add: with_score_def Let_def Tire.defs TireWithScore.defs)

lemma mset_insert_sorted: "mset (insert_sorted cmp x xs) = add_mset x (mset xs)"
  by (induction xs) auto

lemma mset_array_sort: "mset (array_sort cmp xs) = mset xs"
  by (induction xs) (auto simp: mset_insert_sorted)

lemma set_array_sort: "set (array_sort cmp xs) = set xs"
  by (metis mset_array_sort set_mset_mset)

lemma length_array_sort: "length (array_sort cmp xs) = length xs"
  by (metis mset_array_sort size_mset)

lemma set_insert_sorted: "set (insert_sorted cmp x xs) = insert x (set xs)"
  by (metis mset_insert_sorted set_mset_mset set_mset_add_mset_insert)

text \<open>
  With scores that are rounded values (so none is NaN), the comparator is positive exactly
  when its first argument has the lower score, and the sort gives descending scores.
\<close>

lemma by_score_desc_positive:
  assumes "score x \<in> range round_double" "score y \<in> range round_double"
  shows "js_positive (by_score_desc x y) = (js_le (score x) (score y) \<and> score x \<noteq> score y)"
  unfolding by_score_desc_def using assms by (rule positive_difference)

lemma sorted_insert_sorted:
  assumes "score x \<in> range round_double" "\<forall>y \<in> set xs. score y \<in> range round_double"
    and "sorted_wrt (\<lambda>a b. js_le (score b) (score a)) xs"
  shows "sorted_wrt (\<lambda>a b. js_le (score b) (score a)) (insert_sorted by_score_desc x xs)"
  using assms(2,3)
proof (induction xs)
  case Nil
  then show ?case by simp
next
  case (Cons y ys)
  from Cons.prems have ry: "score y \<in> range round_double" by simp
  note nx = rounded_not_NaN [OF assms(1)] and ny = rounded_not_NaN [OF ry]
  show ?case
  proof (cases "js_positive (by_score_desc x y)")
    case True
    then have xy: "js_le (score x) (score y)"
      by (simp add: by_score_desc_positive [OF assms(1) ry])
    from Cons have "sorted_wrt (\<lambda>a b. js_le (score b) (score a)) (insert_sorted by_score_desc x ys)"
      by simp
    with Cons.prems xy True show ?thesis by (auto simp: set_insert_sorted)
  next
    case False
    then have "\<not> js_le (score x) (score y) \<or> score x = score y"
      by (simp add: by_score_desc_positive [OF assms(1) ry])
    with js_le_total [OF nx ny] js_le_refl [OF ny] have yx: "js_le (score y) (score x)" by auto
    have "js_le (score z) (score x)" if "z \<in> set ys" for z
    proof -
      from Cons.prems that have "js_le (score z) (score y)" by simp
      then show ?thesis using yx by (rule js_le_trans)
    qed
    with Cons.prems yx False show ?thesis by simp
  qed
qed

lemma sorted_array_sort:
  "\<forall>y \<in> set xs. score y \<in> range round_double \<Longrightarrow>
   sorted_wrt (\<lambda>a b. js_le (score b) (score a)) (array_sort by_score_desc xs)"
  by (induction xs) (simp_all add: sorted_insert_sorted set_array_sort)

text \<open>Items of one score keep their order, whatever the scores are.\<close>

lemma filter_insert_sorted:
  "filter (\<lambda>t. score t = s) (insert_sorted by_score_desc x xs) =
     (if score x = s then x # filter (\<lambda>t. score t = s) xs else filter (\<lambda>t. score t = s) xs)"
proof (induction xs)
  case Nil
  then show ?case by simp
next
  case (Cons y ys)
  show ?case
  proof (cases "js_positive (by_score_desc x y)")
    case True
    with not_positive_self [of "score y"] have "score x \<noteq> score y"
      by (auto simp: by_score_desc_def)
    with True Cons show ?thesis by auto
  next
    case False
    then show ?thesis by simp
  qed
qed

lemma array_sort_stable:
  "filter (\<lambda>t. score t = s) (array_sort by_score_desc xs) = filter (\<lambda>t. score t = s) xs"
  by (induction xs) (auto simp: filter_insert_sorted)

subsection \<open>Weights and scores\<close>

lemma round_1: "round_double (4 / 5) = Fin (3602879701896397 / 4503599627370496)"
  using round_double_normal [of "4 / 5" "-1" "7205759403792794"] by simp

lemma round_2: "round_double (1 / 5) = Fin (3602879701896397 / 18014398509481984)"
  using round_double_normal [of "1 / 5" "-3" "7205759403792794"] by simp

lemma round_3: "round_double (3 / 5) = Fin (5404319552844595 / 9007199254740992)"
  using round_double_normal [of "3 / 5" "-1" "5404319552844595"] by simp

lemma round_4: "round_double (2 / 5) = Fin (3602879701896397 / 9007199254740992)"
  using round_double_normal [of "2 / 5" "-2" "7205759403792794"] by simp

lemma round_5: "round_double (7 / 20) = Fin (3152519739159347 / 9007199254740992)"
  using round_double_normal [of "7 / 20" "-2" "6305039478318694"] by simp

lemma round_6: "round_double (13 / 20) = Fin (5854679515581645 / 9007199254740992)"
  using round_double_normal [of "13 / 20" "-1" "5854679515581645"] by simp

lemma lit_values:
  "lit (4 / 5) = Fin (3602879701896397 / 4503599627370496)"
  "lit (1 / 5) = Fin (3602879701896397 / 18014398509481984)"
  "lit (3 / 5) = Fin (5404319552844595 / 9007199254740992)"
  "lit (2 / 5) = Fin (3602879701896397 / 9007199254740992)"
  "lit (7 / 20) = Fin (3152519739159347 / 9007199254740992)"
  "lit (13 / 20) = Fin (5854679515581645 / 9007199254740992)"
  by (simp_all add: lit_def round_1 round_2 round_3 round_4 round_5 round_6)


lemma WEIGHT_CONFIG_spec:
  "w_wg (WEIGHT_CONFIG p) = lit (fst (spec_weights p))" "w_rr (WEIGHT_CONFIG p) = lit (snd (spec_weights p))"
  by (cases p; simp add: WEIGHT_CONFIG_def spec_weights_def)+

lemma calc_score_spec: "calc_score (WEIGHT_CONFIG p) g n = spec_score (spec_weights p) g n"
  by (simp add: calc_score_def spec_score_def WEIGHT_CONFIG_spec)

lemma weights_unit_ex:
  "\<exists>u v. w_wg (WEIGHT_CONFIG p) = Fin u \<and> 0 \<le> u \<and> u \<le> 1 \<and>
         w_rr (WEIGHT_CONFIG p) = Fin v \<and> 0 \<le> v \<and> v \<le> 1"
proof (cases p)
  case Very
  have "w_wg (WEIGHT_CONFIG p) = Fin (3602879701896397 / 4503599627370496)" "w_rr (WEIGHT_CONFIG p) = Fin (3602879701896397 / 18014398509481984)"
    by (simp_all add: Very WEIGHT_CONFIG_def lit_values)
  moreover have "(0::rat) \<le> 3602879701896397 / 4503599627370496" "(3602879701896397 / 4503599627370496 :: rat) \<le> 1" "(0::rat) \<le> 3602879701896397 / 18014398509481984" "(3602879701896397 / 18014398509481984 :: rat) \<le> 1"
    by simp_all
  ultimately show ?thesis by blast
next
  case Normal
  have "w_wg (WEIGHT_CONFIG p) = Fin (5404319552844595 / 9007199254740992)" "w_rr (WEIGHT_CONFIG p) = Fin (3602879701896397 / 9007199254740992)"
    by (simp_all add: Normal WEIGHT_CONFIG_def lit_values)
  moreover have "(0::rat) \<le> 5404319552844595 / 9007199254740992" "(5404319552844595 / 9007199254740992 :: rat) \<le> 1" "(0::rat) \<le> 3602879701896397 / 9007199254740992" "(3602879701896397 / 9007199254740992 :: rat) \<le> 1"
    by simp_all
  ultimately show ?thesis by blast
next
  case NotWet
  have "w_wg (WEIGHT_CONFIG p) = Fin (3152519739159347 / 9007199254740992)" "w_rr (WEIGHT_CONFIG p) = Fin (5854679515581645 / 9007199254740992)"
    by (simp_all add: NotWet WEIGHT_CONFIG_def lit_values)
  moreover have "(0::rat) \<le> 3152519739159347 / 9007199254740992" "(3152519739159347 / 9007199254740992 :: rat) \<le> 1" "(0::rat) \<le> 5854679515581645 / 9007199254740992" "(5854679515581645 / 9007199254740992 :: rat) \<le> 1"
    by simp_all
  ultimately show ?thesis by blast
qed

lemma weights_unit:
  obtains u v where "w_wg (WEIGHT_CONFIG p) = Fin u" "0 \<le> u" "u \<le> 1"
    "w_rr (WEIGHT_CONFIG p) = Fin v" "0 \<le> v" "v \<le> 1"
  using weights_unit_ex [of p] by blast

lemma product_in_range:
  assumes "\<bar>a\<bar> \<le> MAX_VALUE" "0 \<le> u" "u \<le> 1"
  obtains z where "js_mul (Fin a) (Fin u) = Fin z" "\<bar>z\<bar> \<le> MAX_VALUE"
proof -
  have "\<bar>a * u\<bar> = \<bar>a\<bar> * u" using assms(2) by (simp add: abs_mult)
  also have "\<dots> \<le> \<bar>a\<bar> * 1" using assms(3) by (intro mult_left_mono) simp_all
  finally have "\<bar>a * u\<bar> \<le> MAX_VALUE + 30" using assms(1) by simp
  then obtain z where "round_double (a * u) = Fin z" "\<bar>z\<bar> \<le> MAX_VALUE"
    by (rule round_in_range)
  then show thesis using that by simp
qed

lemma rr_norm_in_range:
  assumes "\<bar>r\<bar> \<le> MAX_VALUE"
  obtains z where "js_sub (Fin 30) (Fin r) = Fin z" "\<bar>z\<bar> \<le> MAX_VALUE"
proof -
  from assms have "\<bar>30 + - r\<bar> \<le> MAX_VALUE + 30" by simp
  then obtain z where "round_double (30 + - r) = Fin z" "\<bar>z\<bar> \<le> MAX_VALUE"
    by (rule round_in_range)
  then show thesis using that by (simp add: js_sub_def)
qed

lemma calc_score_rounded:
  assumes "\<bar>g\<bar> \<le> MAX_VALUE" "\<bar>n\<bar> \<le> MAX_VALUE"
  shows "calc_score (WEIGHT_CONFIG p) (Fin g) (Fin n) \<in> range round_double"
proof -
  obtain u v where w: "w_wg (WEIGHT_CONFIG p) = Fin u" "0 \<le> u" "u \<le> 1"
    "w_rr (WEIGHT_CONFIG p) = Fin v" "0 \<le> v" "v \<le> 1"
    by (rule weights_unit)
  obtain z1 where z1: "js_mul (Fin g) (Fin u) = Fin z1"
    using product_in_range [OF assms(1) w(2,3)] by blast
  obtain z2 where z2: "js_mul (Fin n) (Fin v) = Fin z2"
    using product_in_range [OF assms(2) w(5,6)] by blast
  have "calc_score (WEIGHT_CONFIG p) (Fin g) (Fin n) = round_double (z1 + z2)"
    by (simp only: calc_score_def w(1,4) z1 z2 js_add.simps)
  then show ?thesis by simp
qed

lemma score_rounded:
  assumes "measurements_in_range t"
  shows "score (with_score (WEIGHT_CONFIG p) t) \<in> range round_double"
proof -
  let ?g = "min (to_number (wet_center t)) (to_number (wet_edge t))"
  from assms have g: "\<bar>?g\<bar> \<le> MAX_VALUE"
    by (simp add: measurements_in_range_def min_def)
  from assms have "\<bar>to_number (rr_high_w t)\<bar> \<le> MAX_VALUE"
    by (simp add: measurements_in_range_def)
  then obtain z where z: "js_sub (Fin 30) (Fin (to_number (rr_high_w t))) = Fin z" "\<bar>z\<bar> \<le> MAX_VALUE"
    by (rule rr_norm_in_range)
  show ?thesis
    using calc_score_rounded [OF g z(2), of p] by (simp only: with_score_fields z(1))
qed

lemma calc_score_mono:
  assumes "\<bar>g1\<bar> \<le> MAX_VALUE" "\<bar>g2\<bar> \<le> MAX_VALUE" "\<bar>n1\<bar> \<le> MAX_VALUE" "\<bar>n2\<bar> \<le> MAX_VALUE"
    and "g1 \<le> g2" "n1 \<le> n2"
  shows "js_le (calc_score (WEIGHT_CONFIG p) (Fin g1) (Fin n1)) (calc_score (WEIGHT_CONFIG p) (Fin g2) (Fin n2))"
proof -
  obtain u v where w: "w_wg (WEIGHT_CONFIG p) = Fin u" "0 \<le> u" "u \<le> 1"
    "w_rr (WEIGHT_CONFIG p) = Fin v" "0 \<le> v" "v \<le> 1"
    by (rule weights_unit)
  obtain a1 where a1: "js_mul (Fin g1) (Fin u) = Fin a1"
    using product_in_range [OF assms(1) w(2,3)] by blast
  obtain a2 where a2: "js_mul (Fin g2) (Fin u) = Fin a2"
    using product_in_range [OF assms(2) w(2,3)] by blast
  obtain b1 where b1: "js_mul (Fin n1) (Fin v) = Fin b1"
    using product_in_range [OF assms(3) w(5,6)] by blast
  obtain b2 where b2: "js_mul (Fin n2) (Fin v) = Fin b2"
    using product_in_range [OF assms(4) w(5,6)] by blast
  have "js_le (round_double (g1 * u)) (round_double (g2 * u))"
    using assms(5) w(2) by (intro round_double_mono mult_right_mono)
  then have a: "a1 \<le> a2" using a1 a2 by simp
  have "js_le (round_double (n1 * v)) (round_double (n2 * v))"
    using assms(6) w(5) by (intro round_double_mono mult_right_mono)
  then have b: "b1 \<le> b2" using b1 b2 by simp
  have "js_le (round_double (a1 + b1)) (round_double (a2 + b2))"
    using a b by (intro round_double_mono add_mono)
  then show ?thesis
    by (simp only: calc_score_def w(1,4) a1 a2 b1 b2 js_add.simps)
qed


subsection \<open>Width groups and the ranking\<close>

lemma member_preferredWidths:
  "(width_or_0 t \<in> set (preferredWidths w)) = spec_preferred w t"
  by (cases w; cases "width_spec_mm t")
     (auto simp: preferredWidths_def width_or_0_def spec_preferred_def spec_width_set_def)

lemma preferred_unsorted_spec: "preferred_unsorted w ts = filter (spec_preferred w) ts"
  by (simp add: preferred_unsorted_def member_preferredWidths)

lemma others_unsorted_spec: "others_unsorted w ts = filter (\<lambda>t. \<not> spec_preferred w t) ts"
  by (simp add: others_unsorted_def member_preferredWidths)

lemma set_preferred: "set (preferred w ts) = {t \<in> set ts. spec_preferred w t}"
  by (simp add: preferred_def set_array_sort preferred_unsorted_spec)

lemma set_others: "set (others w ts) = {t \<in> set ts. \<not> spec_preferred w t}"
  by (simp add: others_def set_array_sort others_unsorted_spec)

lemma mset_ranking: "mset (preferred w ts @ others w ts) = mset ts"
  by (simp add: preferred_def others_def mset_array_sort preferred_unsorted_spec others_unsorted_spec)

lemma length_ranking: "length (preferred w ts @ others w ts) = length ts"
  by (metis mset_ranking size_mset)

lemma set_ranking: "set (preferred w ts @ others w ts) = set ts"
  by (metis mset_ranking set_mset_mset)

lemma map_truncate_tiresWithScore: "map Tire.truncate (tiresWithScore p rows) = validTires rows"
  by (simp add: tiresWithScore_def Let_def comp_def)

lemma validTires_eligible: "validTires rows = filter eligible rows"
  unfolding validTires_def eligible_def [abs_def] by (rule refl)

lemma length_tiresWithScore: "length (tiresWithScore p rows) = length (filter eligible rows)"
  by (metis map_truncate_tiresWithScore validTires_eligible length_map)

lemma length_top3: "length (top3 p w rows) = min 3 (length (filter eligible rows))"
  using length_ranking [of w "tiresWithScore p rows"]
  by (simp add: top3_eq length_tiresWithScore del: length_append take_append)

lemma set_top3_subset: "set (top3 p w rows) \<subseteq> set (tiresWithScore p rows)"
  using set_take_subset [of 3 "preferred w (tiresWithScore p rows) @ others w (tiresWithScore p rows)"]
  by (simp only: top3_eq set_ranking)

lemma eligible_tiresWithScore:
  "t \<in> set (tiresWithScore p rows) \<Longrightarrow> eligible t \<and> Tire.truncate t \<in> set rows"
  by (auto simp: tiresWithScore_def Let_def validTires_def eligible_def)

lemma mset_take_subset: "mset (take n xs) \<subseteq># mset xs"
  by (metis append_take_drop_id mset_append mset_subset_eq_add_left)

lemma ranking_groups:
  "\<forall>t \<in> set (preferred w ts). spec_preferred w t" "\<forall>t \<in> set (others w ts). \<not> spec_preferred w t"
  by (simp_all add: set_preferred set_others)

lemma tiresWithScore_rounded:
  assumes "\<forall>r \<in> set rows. measurements_in_range r"
  shows "\<forall>t \<in> set (tiresWithScore p rows). score t \<in> range round_double"
proof
  fix t assume "t \<in> set (tiresWithScore p rows)"
  then obtain r where "r \<in> set rows" "t = with_score (WEIGHT_CONFIG p) r"
    by (auto simp: tiresWithScore_def Let_def validTires_def)
  with assms show "score t \<in> range round_double" by (simp only: score_rounded)
qed

lemma sorted_preferred:
  "\<forall>t \<in> set ts. score t \<in> range round_double \<Longrightarrow>
   sorted_wrt (\<lambda>a b. js_le (score b) (score a)) (preferred w ts)"
  unfolding preferred_def by (rule sorted_array_sort) (simp add: preferred_unsorted_def)

lemma sorted_others:
  "\<forall>t \<in> set ts. score t \<in> range round_double \<Longrightarrow>
   sorted_wrt (\<lambda>a b. js_le (score b) (score a)) (others w ts)"
  unfolding others_def by (rule sorted_array_sort) (simp add: others_unsorted_def)

text \<open>In the full ranking, a preferred item never stands behind one that is not.\<close>

lemma ranking_width_first:
  assumes "i < length (preferred w ts @ others w ts)" "j < length (preferred w ts @ others w ts)"
    and "spec_preferred w ((preferred w ts @ others w ts) ! i)"
    and "\<not> spec_preferred w ((preferred w ts @ others w ts) ! j)"
  shows "i < j"
proof -
  let ?P = "preferred w ts" and ?O = "others w ts"
  have i: "i < length ?P"
  proof (rule ccontr)
    assume "\<not> i < length ?P"
    then have "(?P @ ?O) ! i \<in> set ?O" using assms(1) by (simp add: nth_append)
    with ranking_groups(2) [of w ts] assms(3) show False by blast
  qed
  have j: "\<not> j < length ?P"
  proof
    assume "j < length ?P"
    then have "(?P @ ?O) ! j \<in> set ?P" by (simp add: nth_append)
    with ranking_groups(1) [of w ts] assms(4) show False by blast
  qed
  from i j show ?thesis by simp
qed

text \<open>In the full ranking, two items of one width group stand in descending score.\<close>

lemma ranking_sorted_in_group:
  assumes r: "\<forall>t \<in> set ts. score t \<in> range round_double"
    and "i < j" "j < length (preferred w ts @ others w ts)"
    and "spec_preferred w ((preferred w ts @ others w ts) ! i) =
         spec_preferred w ((preferred w ts @ others w ts) ! j)"
  shows "js_le (score ((preferred w ts @ others w ts) ! j)) (score ((preferred w ts @ others w ts) ! i))"
proof -
  let ?P = "preferred w ts" and ?O = "others w ts"
  consider (both_p) "j < length ?P" | (both_o) "length ?P \<le> i" | (mixed) "i < length ?P" "length ?P \<le> j"
    by linarith
  then show ?thesis
  proof cases
    case both_p
    then show ?thesis
      using assms(2) sorted_wrt_nth_less [OF sorted_preferred [OF r, of w], of i j]
      by (simp add: nth_append)
  next
    case both_o
    then show ?thesis
      using assms(2,3) sorted_wrt_nth_less [OF sorted_others [OF r, of w], of "i - length ?P" "j - length ?P"]
      by (simp add: nth_append)
  next
    case mixed
    then have "(?P @ ?O) ! i \<in> set ?P" "(?P @ ?O) ! j \<in> set ?O"
      using assms(3) by (simp_all add: nth_append)
    with ranking_groups [of w ts] assms(4) show ?thesis by blast
  qed
qed

lemma stable_in_group:
  "filter (\<lambda>t. score t = s \<and> spec_preferred w t = m) (preferred w ts @ others w ts) =
   filter (\<lambda>t. score t = s \<and> spec_preferred w t = m) ts"
proof -
  have split: "filter (\<lambda>t. score t = s \<and> R t) xs = filter R (filter (\<lambda>t. score t = s) xs)"
    for R :: "TireWithScore \<Rightarrow> bool" and xs
    by (simp add: conj_commute)
  have p: "filter (\<lambda>t. score t = s \<and> spec_preferred w t = m) (preferred w ts) =
           (if m then filter (\<lambda>t. score t = s \<and> spec_preferred w t = m) ts else [])"
    unfolding split preferred_def array_sort_stable preferred_unsorted_spec
    by (auto simp: filter_empty_conv intro: filter_cong)
  have o: "filter (\<lambda>t. score t = s \<and> spec_preferred w t = m) (others w ts) =
           (if m then [] else filter (\<lambda>t. score t = s \<and> spec_preferred w t = m) ts)"
    unfolding split others_def array_sort_stable others_unsorted_spec
    by (auto simp: filter_empty_conv intro: filter_cong)
  show ?thesis by (simp only: filter_append p o) simp
qed

text \<open>The preferred items of the top three are the first three of the preferred list.\<close>

lemma filter_preferred_top3:
  "filter (spec_preferred w) (top3 p w rows) = take 3 (preferred w (tiresWithScore p rows))"
proof -
  let ?P = "preferred w (tiresWithScore p rows)" and ?O = "others w (tiresWithScore p rows)"
  have 1: "filter (spec_preferred w) (take 3 ?P) = take 3 ?P"
    using ranking_groups(1) [of w "tiresWithScore p rows"] set_take_subset [of 3 ?P]
    by (intro filter_True) blast
  have 2: "filter (spec_preferred w) (take (3 - length ?P) ?O) = []"
    using ranking_groups(2) [of w "tiresWithScore p rows"] set_take_subset [of "3 - length ?P" ?O]
    by (intro filter_False) blast
  show ?thesis by (simp only: top3_eq take_append filter_append 1 2 append_Nil2)
qed

lemma length_preferred:
  "length (preferred w ts) = length (filter (spec_preferred w) ts)"
  by (simp add: preferred_def length_array_sort preferred_unsorted_spec)

lemma preferred_before_others_selected:
  assumes "a \<in> set (top3 p w rows)" "\<not> spec_preferred w a"
    and "b \<in> set (tiresWithScore p rows)" "spec_preferred w b"
  shows "b \<in> set (top3 p w rows)"
proof -
  let ?P = "preferred w (tiresWithScore p rows)" and ?O = "others w (tiresWithScore p rows)"
  have t: "top3 p w rows = take 3 ?P @ take (3 - length ?P) ?O"
    by (simp only: top3_eq take_append)
  have "a \<notin> set (take 3 ?P)"
    using ranking_groups(1) [of w "tiresWithScore p rows"] set_take_subset [of 3 ?P] assms(2) by blast
  with assms(1) have "a \<in> set (take (3 - length ?P) ?O)" by (simp add: t)
  then have "take (3 - length ?P) ?O \<noteq> []" by auto
  then have "length ?P < 3" by (cases "length ?P < 3") simp_all
  then have "take 3 ?P = ?P" by simp
  moreover from assms(3,4) have "b \<in> set ?P" by (simp add: set_preferred)
  ultimately show ?thesis by (simp add: t)
qed

lemma left_out_means_full:
  assumes "b \<in> set (tiresWithScore p rows)" "b \<notin> set (top3 p w rows)"
  shows "length (top3 p w rows) = 3"
proof -
  let ?full = "preferred w (tiresWithScore p rows) @ others w (tiresWithScore p rows)"
  from assms(1) have "b \<in> set ?full" by (simp only: set_ranking)
  with assms(2) have "take 3 ?full \<noteq> ?full" by (auto simp only: top3_eq)
  then have "3 < length ?full" by (cases "3 < length ?full") simp_all
  then show ?thesis by (simp add: top3_eq)
qed

subsection \<open>The examples, evaluated\<close>

text \<open>The roundings that occur in the scores of the example rows.\<close>

lemma round_7: "round_double (20) = Fin (20)"
  using round_double_normal [of "20" "4" "5629499534213120"] by simp

lemma round_8: "round_double (110338190870577145 / 4503599627370496) = Fin (49 / 2)"
  using round_double_normal [of "110338190870577145 / 4503599627370496" "4" "6896136929411072"] by simp

lemma round_9: "round_double (29273397577908225 / 2251799813685248) = Fin (13)"
  using round_double_normal [of "29273397577908225 / 2251799813685248" "3" "7318349394477056"] by simp

lemma round_10: "round_double (75 / 2) = Fin (75 / 2)"
  using round_double_normal [of "75 / 2" "5" "5277655813324800"] by simp

lemma round_11: "round_double (22) = Fin (22)"
  using round_double_normal [of "22" "4" "6192449487634432"] by simp

lemma round_12: "round_double (141863388262170615 / 4503599627370496) = Fin (8866461766385663 / 281474976710656)"
  using round_double_normal [of "141863388262170615 / 4503599627370496" "4" "8866461766385663"] by simp

lemma round_13: "round_double (64401474671398095 / 4503599627370496) = Fin (4025092166962381 / 281474976710656)"
  using round_double_normal [of "64401474671398095 / 4503599627370496" "3" "8050184333924762"] by simp

lemma round_14: "round_double (3222888483337011 / 70368744177664) = Fin (3222888483337011 / 70368744177664)"
  using round_double_normal [of "3222888483337011 / 70368744177664" "5" "6445776966674022"] by simp

lemma round_15: "round_double (10) = Fin (10)"
  using round_double_normal [of "10" "3" "5629499534213120"] by simp

lemma round_16: "round_double (47287796087390205 / 2251799813685248) = Fin (21)"
  using round_double_normal [of "47287796087390205 / 2251799813685248" "4" "5910974510923776"] by simp

lemma round_17: "round_double (29273397577908225 / 4503599627370496) = Fin (13 / 2)"
  using round_double_normal [of "29273397577908225 / 4503599627370496" "2" "7318349394477056"] by simp

lemma round_18: "round_double (55 / 2) = Fin (55 / 2)"
  using round_double_normal [of "55 / 2" "4" "7740561859543040"] by simp

lemma round_19: "round_double (15762598695796735 / 562949953421312) = Fin (28)"
  using round_double_tie [of "15762598695796735 / 562949953421312" "4" "7881299347898367" "7881299347898368"] by simp

lemma round_20: "round_double (41) = Fin (41)"
  using round_double_normal [of "41" "5" "5770237022568448"] by simp

lemma round_21: "round_double (21) = Fin (21)"
  using round_double_normal [of "21" "4" "5910974510923776"] by simp

lemma round_22: "round_double (27021597764222975 / 562949953421312) = Fin (48)"
  using round_double_normal [of "27021597764222975 / 562949953421312" "5" "6755399441055744"] by simp

lemma round_23: "round_double (75660473739824337 / 9007199254740992) = Fin (4728779608739021 / 562949953421312)"
  using round_double_normal [of "75660473739824337 / 9007199254740992" "3" "4728779608739021"] by simp

lemma round_24: "round_double (31750377372961997 / 562949953421312) = Fin (7937594343240499 / 140737488355328)"
  using round_double_normal [of "31750377372961997 / 562949953421312" "5" "7937594343240499"] by simp

lemma round_25: "round_double (19) = Fin (19)"
  using round_double_normal [of "19" "4" "5348024557502464"] by simp

lemma round_26: "round_double (189151184349560825 / 4503599627370496) = Fin (42)"
  using round_double_normal [of "189151184349560825 / 4503599627370496" "5" "5910974510923776"] by simp

lemma round_27: "round_double (68454714336031543 / 9007199254740992) = Fin (8556839292003943 / 1125899906842624)"
  using round_double_normal [of "68454714336031543 / 9007199254740992" "2" "8556839292003943"] by simp

lemma round_28: "round_double (55844635379394151 / 1125899906842624) = Fin (6980579422424269 / 140737488355328)"
  using round_double_normal [of "55844635379394151 / 1125899906842624" "5" "6980579422424269"] by simp

lemma round_29: "round_double (16) = Fin (16)"
  using round_double_normal [of "16" "4" "4503599627370496"] by simp

lemma round_30: "round_double (81064793292668925 / 2251799813685248) = Fin (36)"
  using round_double_normal [of "81064793292668925 / 2251799813685248" "5" "5066549580791808"] by simp

lemma round_31: "round_double (3602879701896397 / 562949953421312) = Fin (3602879701896397 / 562949953421312)"
  using round_double_normal [of "3602879701896397 / 562949953421312" "2" "7205759403792794"] by simp

lemma round_32: "round_double (23869078025063629 / 562949953421312) = Fin (5967269506265907 / 140737488355328)"
  using round_double_normal [of "23869078025063629 / 562949953421312" "5" "5967269506265907"] by simp

lemma round_33: "round_double (18) = Fin (18)"
  using round_double_normal [of "18" "4" "5066549580791808"] by simp

lemma round_34: "round_double (416132605569033815 / 9007199254740992) = Fin (6502071962016153 / 140737488355328)"
  using round_double_normal [of "416132605569033815 / 9007199254740992" "5" "6502071962016153"] by simp

lemma round_35: "round_double (32425917317067573 / 4503599627370496) = Fin (8106479329266893 / 1125899906842624)"
  using round_double_normal [of "32425917317067573 / 4503599627370496" "2" "8106479329266893"] by simp

lemma round_36: "round_double (60123055025396117 / 1125899906842624) = Fin (7515381878174515 / 140737488355328)"
  using round_double_normal [of "60123055025396117 / 1125899906842624" "5" "7515381878174515"] by simp

lemma round_37: "round_double (167533906138182445 / 4503599627370496) = Fin (5235434566818201 / 140737488355328)"
  using round_double_normal [of "167533906138182445 / 4503599627370496" "5" "5235434566818201"] by simp

lemma round_38: "round_double (25670517876011825 / 562949953421312) = Fin (1604407367250739 / 35184372088832)"
  using round_double_normal [of "25670517876011825 / 562949953421312" "5" "6417629469002956"] by simp

lemma round_39: "round_double (5404319552844595 / 140737488355328) = Fin (5404319552844595 / 140737488355328)"
  using round_double_normal [of "5404319552844595 / 140737488355328" "5" "5404319552844595"] by simp

lemma round_40: "round_double (51341035752023653 / 1125899906842624) = Fin (6417629469002957 / 140737488355328)"
  using round_double_normal [of "51341035752023653 / 1125899906842624" "5" "6417629469002957"] by simp

lemma round_41: "round_double (229 / 5) = Fin (3222888483337011 / 70368744177664)"
  using round_double_normal [of "229 / 5" "5" "6445776966674022"] by simp

lemma round_42: "round_double (228 / 5) = Fin (6417629469002957 / 140737488355328)"
  using round_double_normal [of "228 / 5" "5" "6417629469002957"] by simp

lemma round_43: "round_double (31) = Fin (31)"
  using round_double_normal [of "31" "4" "8725724278030336"] by simp

lemma round_44: "round_double (15528719852795812335691934937907 / 633825300114114700748351602688) = Fin (6896136929411073 / 281474976710656)"
  using round_double_normal [of "15528719852795812335691934937907 / 633825300114114700748351602688" "4" "6896136929411073"] by simp

lemma round_45: "round_double (10555311626649601 / 281474976710656) = Fin (75 / 2)"
  using round_double_tie [of "10555311626649601 / 281474976710656" "5" "5277655813324800" "5277655813324800"] by simp


lemmas example_roundings = lit_values round_1 round_2 round_3 round_4 round_5 round_6 round_7 round_8 round_9 round_10 round_11 round_12 round_13 round_14 round_15 round_16 round_17 round_18 round_19 round_20 round_21 round_22 round_23 round_24 round_25 round_26 round_27 round_28 round_29 round_30 round_31 round_32 round_33 round_34 round_35 round_36 round_37 round_38 round_39 round_40 round_41 round_42 round_43 round_44 round_45

text \<open>The defining equations that evaluate the ranker on a concrete list of rows.\<close>

lemmas ranker_defs = top3_eq tiresWithScore_def validTires_def with_score_def calc_score_def
  WEIGHT_CONFIG_def to_number_def preferred_def others_def preferred_unsorted_def others_unsorted_def
  preferredWidths_def width_or_0_def by_score_desc_def js_sub_def Let_def Tire.defs TireWithScore.defs
  example_roundings positive_round_eval

lemma top3_example:
  "top3 NotWet W28 example_rows =
     [with_score (WEIGHT_CONFIG NotWet) (example_rows ! 0),
      with_score (WEIGHT_CONFIG NotWet) (example_rows ! 2),
      with_score (WEIGHT_CONFIG NotWet) (example_rows ! 1)]"
  by (simp add: example_rows_def mk_tire_def ranker_defs)


subsection \<open>Scores\<close>

text \<open>
  Claim C9. For each weight pair of the table, the score of line 109 is the
  specification's score, and it never decreases when the wet grip value grows with the
  normalised rolling resistance fixed, nor when the normalised rolling resistance grows
  with the wet grip value fixed. The arguments are binary64 values, so none is beyond
  \<^verbatim>\<open>Number.MAX_VALUE\<close>; the score is a JavaScript number and is compared as such.
\<close>

theorem score_monotone:
  "\<bar>g1\<bar> \<le> MAX_VALUE \<Longrightarrow> \<bar>g2\<bar> \<le> MAX_VALUE \<Longrightarrow> \<bar>n1\<bar> \<le> MAX_VALUE \<Longrightarrow> \<bar>n2\<bar> \<le> MAX_VALUE \<Longrightarrow>
   calc_score (WEIGHT_CONFIG p) a b = spec_score (spec_weights p) a b \<and>
   (g1 \<le> g2 \<longrightarrow>
      js_le (calc_score (WEIGHT_CONFIG p) (Fin g1) (Fin n1)) (calc_score (WEIGHT_CONFIG p) (Fin g2) (Fin n1))) \<and>
   (n1 \<le> n2 \<longrightarrow>
      js_le (calc_score (WEIGHT_CONFIG p) (Fin g1) (Fin n1)) (calc_score (WEIGHT_CONFIG p) (Fin g1) (Fin n2)))"
  using calc_score_mono [of g1 g2 n1 n1 p] calc_score_mono [of g1 g1 n1 n2 p]
  by (simp add: calc_score_spec)

theorem score_monotone_witness:
  "\<bar>70\<bar> \<le> MAX_VALUE \<and> \<bar>80\<bar> \<le> MAX_VALUE \<and> \<bar>10\<bar> \<le> MAX_VALUE \<and> \<bar>20\<bar> \<le> MAX_VALUE \<and>
   (70::rat) \<le> 80 \<and> (10::rat) \<le> 20 \<and>
   js_le (calc_score (WEIGHT_CONFIG NotWet) (Fin 70) (Fin 10)) (calc_score (WEIGHT_CONFIG NotWet) (Fin 80) (Fin 10)) \<and>
   js_le (calc_score (WEIGHT_CONFIG NotWet) (Fin 70) (Fin 10)) (calc_score (WEIGHT_CONFIG NotWet) (Fin 70) (Fin 20)) \<and>
   calc_score (WEIGHT_CONFIG NotWet) (Fin 70) (Fin 10) = Fin 31 \<and>
   calc_score (WEIGHT_CONFIG NotWet) (Fin 70) (Fin 20) = Fin 37.5"
proof -
  have r: "\<bar>70\<bar> \<le> MAX_VALUE" "\<bar>80\<bar> \<le> MAX_VALUE" "\<bar>10\<bar> \<le> MAX_VALUE" "\<bar>20\<bar> \<le> MAX_VALUE"
    by (simp_all add: MAX_VALUE_def)
  have v: "calc_score (WEIGHT_CONFIG NotWet) (Fin 70) (Fin 10) = Fin 31"
    "calc_score (WEIGHT_CONFIG NotWet) (Fin 70) (Fin 20) = Fin 37.5"
    by (simp_all add: calc_score_def WEIGHT_CONFIG_def example_roundings)
  have "((70::rat) \<le> 80 \<longrightarrow>
      js_le (calc_score (WEIGHT_CONFIG NotWet) (Fin 70) (Fin 10)) (calc_score (WEIGHT_CONFIG NotWet) (Fin 80) (Fin 10))) \<and>
   ((10::rat) \<le> 20 \<longrightarrow>
      js_le (calc_score (WEIGHT_CONFIG NotWet) (Fin 70) (Fin 10)) (calc_score (WEIGHT_CONFIG NotWet) (Fin 70) (Fin 20)))"
    using score_monotone [OF r(1,2,3,4), of NotWet] by (rule conjunct2)
  with r v show ?thesis by simp
qed

text \<open>
  The score is not strictly increasing: 70 and the next binary64 value after it have the
  same score.
\<close>

lemma score_not_strict:
  "calc_score (WEIGHT_CONFIG NotWet) (Fin 70) (Fin 20) =
   calc_score (WEIGHT_CONFIG NotWet) (Fin (70 + 2 powi (- 46))) (Fin 20)"
  by (simp add: calc_score_def WEIGHT_CONFIG_def example_roundings)

text \<open>
  Claim C1. A fetched row whose three measurements are present is scored, and every
  scored item (and so every item of the top three) that comes from it has the score
  \<open>min wet_center wet_edge * wg_weight + (30 - rr_high_w) * rr_weight\<close>, computed in the
  arithmetic of JavaScript numbers with the weight pair that the specification's table
  gives for the wet preference.
\<close>

theorem score_formula:
  "c \<in> set rows \<Longrightarrow> wet_center c = Some a \<Longrightarrow> wet_edge c = Some b \<Longrightarrow> rr_high_w c = Some r \<Longrightarrow>
   (\<exists>t \<in> set (tiresWithScore p rows). Tire.truncate t = c) \<and>
   (\<forall>t \<in> set (tiresWithScore p rows) \<union> set (top3 p w rows). Tire.truncate t = c \<longrightarrow>
      score t =
        js_add (js_mul (Fin (min a b)) (lit (fst (spec_weights p))))
               (js_mul (js_sub (Fin 30) (Fin r)) (lit (snd (spec_weights p)))))"
proof -
  assume c: "c \<in> set rows" "wet_center c = Some a" "wet_edge c = Some b" "rr_high_w c = Some r"
  then have "with_score (WEIGHT_CONFIG p) c \<in> set (tiresWithScore p rows)"
    by (simp add: tiresWithScore_def validTires_def)
  then have 1: "\<exists>t \<in> set (tiresWithScore p rows). Tire.truncate t = c"
    by (rule bexI [rotated]) simp
  have 2: "score t =
      js_add (js_mul (Fin (min a b)) (lit (fst (spec_weights p))))
             (js_mul (js_sub (Fin 30) (Fin r)) (lit (snd (spec_weights p))))"
    if t: "t \<in> set (tiresWithScore p rows)" "Tire.truncate t = c" for t
  proof -
    from t(1) obtain c' where "t = with_score (WEIGHT_CONFIG p) c'"
      by (auto simp: tiresWithScore_def)
    with t(2) have "t = with_score (WEIGHT_CONFIG p) c" by simp
    then show ?thesis
      using c(2-4) by (simp add: calc_score_def to_number_def WEIGHT_CONFIG_spec)
  qed
  from 1 2 set_top3_subset [of p w rows] show ?thesis by blast
qed

text \<open>
  At measurements 62, 62 and 9 with the wet preference "normal" the score is the binary64
  value 45.599999999999994, not 45.6.
\<close>

theorem score_formula_witness:
  "rounding_rows ! 0 \<in> set rounding_rows \<and> wet_center (rounding_rows ! 0) = Some 62 \<and>
   wet_edge (rounding_rows ! 0) = Some 62 \<and> rr_high_w (rounding_rows ! 0) = Some 9 \<and>
   with_score (WEIGHT_CONFIG Normal) (rounding_rows ! 0) \<in> set (tiresWithScore Normal rounding_rows) \<and>
   score (with_score (WEIGHT_CONFIG Normal) (rounding_rows ! 0)) =
     js_add (js_mul (Fin 62) (lit 0.6)) (js_mul (js_sub (Fin 30) (Fin 9)) (lit 0.4)) \<and>
   score (with_score (WEIGHT_CONFIG Normal) (rounding_rows ! 0)) =
     Fin (1604407367250739 / 35184372088832)"
proof -
  have h: "rounding_rows ! 0 \<in> set rounding_rows" "wet_center (rounding_rows ! 0) = Some 62"
    "wet_edge (rounding_rows ! 0) = Some 62" "rr_high_w (rounding_rows ! 0) = Some 9"
    by (simp_all add: rounding_rows_def mk_tire_def)
  have m: "with_score (WEIGHT_CONFIG Normal) (rounding_rows ! 0) \<in> set (tiresWithScore Normal rounding_rows)"
    using h by (simp add: tiresWithScore_def validTires_def)
  have "\<forall>t \<in> set (tiresWithScore Normal rounding_rows) \<union> set (top3 Normal W28 rounding_rows).
          Tire.truncate t = rounding_rows ! 0 \<longrightarrow>
          score t =
            js_add (js_mul (Fin (min 62 62)) (lit (fst (spec_weights Normal))))
                   (js_mul (js_sub (Fin 30) (Fin 9)) (lit (snd (spec_weights Normal))))"
    using score_formula [OF h, of Normal W28] by (rule conjunct2)
  then have "Tire.truncate (with_score (WEIGHT_CONFIG Normal) (rounding_rows ! 0)) = rounding_rows ! 0 \<longrightarrow>
      score (with_score (WEIGHT_CONFIG Normal) (rounding_rows ! 0)) =
        js_add (js_mul (Fin (min 62 62)) (lit (fst (spec_weights Normal))))
               (js_mul (js_sub (Fin 30) (Fin 9)) (lit (snd (spec_weights Normal))))"
    using m by blast
  then have s: "score (with_score (WEIGHT_CONFIG Normal) (rounding_rows ! 0)) =
      js_add (js_mul (Fin 62) (lit 0.6)) (js_mul (js_sub (Fin 30) (Fin 9)) (lit 0.4))"
    by (simp add: spec_weights_def)
  have v: "js_add (js_mul (Fin 62) (lit 0.6)) (js_mul (js_sub (Fin 30) (Fin 9)) (lit 0.4)) =
      Fin (1604407367250739 / 35184372088832)"
    by (simp add: js_sub_def example_roundings)
  from m h s v show ?thesis by (simp only:)
qed

text \<open>
  Claim C7. On the specification's example (wet preference "not", narrow width) the three
  scores are 37.5, 45.8 and 27.5 (the binary64 values that these literals denote), the
  preferred group is item1, item3, the other group is item2, and the result is item1,
  item3, item2.
\<close>

theorem spec_example:
  "map score (tiresWithScore NotWet example_rows) = [lit 37.5, lit 45.8, lit 27.5] \<and>
   map tire_id (tiresWithScore NotWet example_rows) = [''item1'', ''item2'', ''item3''] \<and>
   map tire_id (preferred W28 (tiresWithScore NotWet example_rows)) = [''item1'', ''item3''] \<and>
   map tire_id (others W28 (tiresWithScore NotWet example_rows)) = [''item2''] \<and>
   map tire_id (top3 NotWet W28 example_rows) = [''item1'', ''item3'', ''item2''] \<and>
   map score (top3 NotWet W28 example_rows) = [lit 37.5, lit 27.5, lit 45.8]"
  by (simp add: example_rows_def mk_tire_def ranker_defs lit_def)

subsection \<open>The top three\<close>

text \<open>
  Claim C4. The top three has at most three items, and each of them has its three
  measurements and comes from an eligible fetched row.
\<close>

theorem top3_bounded_eligible:
  "length (top3 p w rows) \<le> 3 \<and>
   (\<forall>t \<in> set (top3 p w rows).
      wet_center t \<noteq> None \<and> wet_edge t \<noteq> None \<and> rr_high_w t \<noteq> None \<and>
      Tire.truncate t \<in> set rows \<and> eligible (Tire.truncate t))"
proof -
  have "length (top3 p w rows) \<le> 3" by (simp add: length_top3)
  moreover have "\<forall>t \<in> set (top3 p w rows). wet_center t \<noteq> None \<and> wet_edge t \<noteq> None \<and> rr_high_w t \<noteq> None \<and>
      Tire.truncate t \<in> set rows \<and> eligible (Tire.truncate t)"
    using set_top3_subset [of p w rows] eligible_tiresWithScore [of _ p rows]
    by (auto simp: eligible_def tiresWithScore_def Let_def validTires_def)
  ultimately show ?thesis by blast
qed

lemma top3_elig_rows:
  "top3 Normal Wider elig_rows =
     [with_score (WEIGHT_CONFIG Normal) (elig_rows ! 0),
      with_score (WEIGHT_CONFIG Normal) (elig_rows ! 4),
      with_score (WEIGHT_CONFIG Normal) (elig_rows ! 5)]"
  by (simp add: elig_rows_def mk_tire_def ranker_defs)

theorem top3_bounded_eligible_witness:
  "length (top3 Normal Wider elig_rows) \<le> 3 \<and>
   map tire_id (top3 Normal Wider elig_rows) = [''a'', ''e'', ''f''] \<and>
   map wet_center (top3 Normal Wider elig_rows) = [Some 80, Some 60, Some 77] \<and>
   map wet_edge (top3 Normal Wider elig_rows) = [Some 82, Some 65, Some 79] \<and>
   map rr_high_w (top3 Normal Wider elig_rows) = [Some 9, Some 14, Some 12] \<and>
   Tire.truncate (top3 Normal Wider elig_rows ! 1) \<in> set elig_rows \<and>
   eligible (Tire.truncate (top3 Normal Wider elig_rows ! 1)) \<and>
   \<not> eligible (elig_rows ! 1) \<and> \<not> eligible (elig_rows ! 3)"
proof -
  have v: "map tire_id (top3 Normal Wider elig_rows) = [''a'', ''e'', ''f'']"
    "map wet_center (top3 Normal Wider elig_rows) = [Some 80, Some 60, Some 77]"
    "map wet_edge (top3 Normal Wider elig_rows) = [Some 82, Some 65, Some 79]"
    "map rr_high_w (top3 Normal Wider elig_rows) = [Some 9, Some 14, Some 12]"
    by (simp_all add: top3_elig_rows) (simp_all add: elig_rows_def mk_tire_def)
  have m: "top3 Normal Wider elig_rows ! 1 \<in> set (top3 Normal Wider elig_rows)"
    by (simp add: top3_elig_rows)
  have n: "\<not> eligible (elig_rows ! 1)" "\<not> eligible (elig_rows ! 3)"
    by (simp_all add: elig_rows_def mk_tire_def eligible_def)
  from top3_bounded_eligible [of Normal Wider elig_rows] m v n show ?thesis
    by blast
qed

text \<open>
  Claim C10. The top three has exactly \<open>min 3 n\<close> items, where \<open>n\<close> is the number of
  eligible rows; as a multiset its rows are among the eligible fetched rows, so no row is
  returned more often than it was fetched, and distinct rows give distinct items.
\<close>

theorem top3_count_no_repeats:
  "length (top3 p w rows) = min 3 (length (filter eligible rows)) \<and>
   mset (map Tire.truncate (top3 p w rows)) \<subseteq># mset (filter eligible rows) \<and>
   (distinct rows \<longrightarrow> distinct (top3 p w rows))"
proof -
  let ?sc = "tiresWithScore p rows"
  let ?full = "preferred w ?sc @ others w ?sc"
  have sub: "mset (top3 p w rows) \<subseteq># mset ?sc"
    using mset_take_subset [of 3 ?full] by (simp only: top3_eq mset_ranking)
  have "image_mset Tire.truncate (mset (top3 p w rows)) \<subseteq># image_mset Tire.truncate (mset ?sc)"
    using sub by (rule image_mset_subseteq_mono)
  then have 2: "mset (map Tire.truncate (top3 p w rows)) \<subseteq># mset (filter eligible rows)"
    using map_truncate_tiresWithScore [of p rows] validTires_eligible [of rows]
    by (metis mset_map)
  have 3: "distinct (top3 p w rows)" if d: "distinct rows"
  proof -
    have "distinct (map Tire.truncate ?sc)"
      using d by (simp add: map_truncate_tiresWithScore validTires_eligible)
    then have "distinct ?sc" by (simp add: distinct_map)
    then have "distinct ?full"
      using mset_ranking [of w ?sc] by (metis mset_eq_imp_distinct_iff)
    then show ?thesis by (simp only: top3_eq distinct_take)
  qed
  from length_top3 2 3 show ?thesis by blast
qed

theorem top3_count_no_repeats_witness:
  "distinct elig_rows \<and> distinct (top3 Normal Wider elig_rows) \<and>
   length (filter eligible elig_rows) = 4 \<and> length (top3 Normal Wider elig_rows) = 3"
proof -
  have d: "distinct elig_rows"
    by (simp add: elig_rows_def mk_tire_def)
  have l: "length (filter eligible elig_rows) = 4"
    by (simp add: elig_rows_def mk_tire_def eligible_def)
  from top3_count_no_repeats [of Normal Wider elig_rows] d l show ?thesis
    by simp
qed

text \<open>
  Claim C2. The two groups are the scored items whose width is in the specification's
  set for the width preference, and the rest; an item without a width is in the rest.
  The top three is the first three items of the sorted preferred group, filled up from
  the sorted rest. Its preferred items are the first three of the sorted preferred group,
  so the top three holds \<open>min 3 k\<close> of the \<open>k\<close> preferred items; an item that is not
  preferred is in the top three only when every preferred item is; and in the top three
  every preferred item stands before every other item, whatever the scores.
\<close>

theorem width_preference_first:
  "preferred_unsorted w (tiresWithScore p rows) = filter (spec_preferred w) (tiresWithScore p rows) \<and>
   others_unsorted w (tiresWithScore p rows) =
     filter (\<lambda>t. \<not> spec_preferred w t) (tiresWithScore p rows) \<and>
   (\<forall>t \<in> set (tiresWithScore p rows). width_spec_mm t = None \<longrightarrow> \<not> spec_preferred w t) \<and>
   top3 p w rows =
     take 3 (preferred w (tiresWithScore p rows)) @
     take (3 - length (preferred w (tiresWithScore p rows))) (others w (tiresWithScore p rows)) \<and>
   filter (spec_preferred w) (top3 p w rows) = take 3 (preferred w (tiresWithScore p rows)) \<and>
   length (filter (spec_preferred w) (top3 p w rows)) =
     min 3 (length (filter (spec_preferred w) (tiresWithScore p rows))) \<and>
   (a \<in> set (top3 p w rows) \<and> \<not> spec_preferred w a \<and>
    b \<in> set (tiresWithScore p rows) \<and> spec_preferred w b \<longrightarrow> b \<in> set (top3 p w rows)) \<and>
   (i < length (top3 p w rows) \<and> j < length (top3 p w rows) \<and>
    spec_preferred w (top3 p w rows ! i) \<and> \<not> spec_preferred w (top3 p w rows ! j) \<longrightarrow> i < j)"
proof -
  let ?sc = "tiresWithScore p rows"
  let ?full = "preferred w ?sc @ others w ?sc"
  have order: "i < j"
    if h: "i < length (top3 p w rows)" "j < length (top3 p w rows)"
      "spec_preferred w (top3 p w rows ! i)" "\<not> spec_preferred w (top3 p w rows ! j)"
  proof -
    from h(1,2) have len: "i < length ?full" "j < length ?full" "i < 3" "j < 3"
      by (simp_all only: top3_eq length_take min_less_iff_conj)
    from h(3,4) len(3,4) have "spec_preferred w (?full ! i)" "\<not> spec_preferred w (?full ! j)"
      by (simp_all add: top3_eq del: take_append)
    with len(1,2) show ?thesis by (rule ranking_width_first)
  qed
  have count: "length (filter (spec_preferred w) (top3 p w rows)) =
      min 3 (length (filter (spec_preferred w) ?sc))"
    by (simp add: filter_preferred_top3 length_preferred)
  have groups: "preferred_unsorted w ?sc = filter (spec_preferred w) ?sc"
    "others_unsorted w ?sc = filter (\<lambda>t. \<not> spec_preferred w t) ?sc"
    "\<forall>t \<in> set ?sc. width_spec_mm t = None \<longrightarrow> \<not> spec_preferred w t"
    by (simp_all add: preferred_unsorted_spec others_unsorted_spec spec_preferred_def)
  have merge: "top3 p w rows = take 3 (preferred w ?sc) @ take (3 - length (preferred w ?sc)) (others w ?sc)"
    by (simp only: top3_eq take_append)
  from groups merge filter_preferred_top3 [of w p rows] count
    preferred_before_others_selected [of a p w rows b] order
  show ?thesis by blast
qed

theorem width_preference_first_witness:
  "0 < length (top3 NotWet W28 width_rows) \<and> 1 < length (top3 NotWet W28 width_rows) \<and>
   spec_preferred W28 (top3 NotWet W28 width_rows ! 0) \<and>
   \<not> spec_preferred W28 (top3 NotWet W28 width_rows ! 1) \<and>
   score (top3 NotWet W28 width_rows ! 0) = Fin 27.5 \<and>
   score (top3 NotWet W28 width_rows ! 1) = lit 45.8 \<and>
   (0::nat) < 1 \<and>
   top3 NotWet W28 width_rows ! 1 \<in> set (top3 NotWet W28 width_rows) \<and>
   top3 NotWet W28 width_rows ! 0 \<in> set (tiresWithScore NotWet width_rows) \<and>
   top3 NotWet W28 width_rows ! 0 \<in> set (top3 NotWet W28 width_rows) \<and>
   length (filter (spec_preferred W28) (top3 NotWet W28 width_rows)) = 1 \<and>
   length (filter (spec_preferred W28) (tiresWithScore NotWet width_rows)) = 1 \<and>
   (\<exists>t \<in> set (tiresWithScore NotWet width_rows). width_spec_mm t = None \<and> \<not> spec_preferred W28 t)"
  using width_preference_first [of W28 NotWet width_rows "top3 NotWet W28 width_rows ! 1"
      "top3 NotWet W28 width_rows ! 0" 0 1]
  by (simp add: width_rows_def mk_tire_def ranker_defs spec_preferred_def spec_width_set_def lit_def)

text \<open>
  Claim C6. The measurements of the fetched rows are binary64 values. Of two items of the
  top three in the same width group, the later one never has the higher score; a scored
  item of the same group with a higher score than an item of the top three is in the top
  three too; the items of one group with one score stand in the top three in the order
  in which they were fetched; and a scored item is left out only when the top three is
  full.
\<close>

theorem same_group_by_score:
  "\<forall>r \<in> set rows. measurements_in_range r \<Longrightarrow>
   (i < j \<and> j < length (top3 p w rows) \<and>
    spec_preferred w (top3 p w rows ! i) = spec_preferred w (top3 p w rows ! j) \<longrightarrow>
      js_le (score (top3 p w rows ! j)) (score (top3 p w rows ! i))) \<and>
   (a \<in> set (top3 p w rows) \<and> b \<in> set (tiresWithScore p rows) \<and>
    spec_preferred w b = spec_preferred w a \<and> js_le (score a) (score b) \<and> score a \<noteq> score b \<longrightarrow>
      b \<in> set (top3 p w rows)) \<and>
   prefix (filter (\<lambda>t. score t = s \<and> spec_preferred w t = m) (top3 p w rows))
          (filter (\<lambda>t. score t = s \<and> spec_preferred w t = m) (tiresWithScore p rows)) \<and>
   (c \<in> set (tiresWithScore p rows) \<and> c \<notin> set (top3 p w rows) \<longrightarrow> length (top3 p w rows) = 3)"
proof -
  assume range: "\<forall>r \<in> set rows. measurements_in_range r"
  let ?sc = "tiresWithScore p rows"
  let ?full = "preferred w ?sc @ others w ?sc"
  note rounded = tiresWithScore_rounded [OF range, of p]
  have t: "top3 p w rows = take 3 ?full" by (rule top3_eq)
  have 1: "js_le (score (top3 p w rows ! j)) (score (top3 p w rows ! i))"
    if h: "i < j" "j < length (top3 p w rows)"
      "spec_preferred w (top3 p w rows ! i) = spec_preferred w (top3 p w rows ! j)"
  proof -
    from h(1,2) have len: "j < length ?full" "j < 3" "i < 3"
      by (simp_all add: t del: take_append length_append)
    with h(3) have "spec_preferred w (?full ! i) = spec_preferred w (?full ! j)"
      by (simp add: t del: take_append)
    from ranking_sorted_in_group [OF rounded h(1) len(1) this] len(2,3) show ?thesis
      by (simp add: t del: take_append)
  qed
  have 2: "b \<in> set (top3 p w rows)"
    if h: "a \<in> set (top3 p w rows)" "b \<in> set ?sc" "spec_preferred w b = spec_preferred w a"
      "js_le (score a) (score b)" "score a \<noteq> score b"
  proof -
    from h(1) obtain i where i: "i < length ?full" "i < 3" "a = ?full ! i"
      unfolding t in_set_conv_nth by (auto simp del: take_append length_append)
    from h(2) have "b \<in> set ?full" by (simp only: set_ranking)
    then obtain j where j: "j < length ?full" "b = ?full ! j"
      unfolding in_set_conv_nth by blast
    have "j < 3"
    proof (rule ccontr)
      assume "\<not> j < 3"
      with i(2) have "i < j" by simp
      from ranking_sorted_in_group [OF rounded this j(1)] h(3) i(3) j(2)
      have "js_le (score b) (score a)" by simp
      with h(4) have "score a = score b" by (rule js_le_antisym)
      with h(5) show False by simp
    qed
    with j have "b = take 3 ?full ! j" "j < length (take 3 ?full)"
      by (simp_all del: take_append length_append)
    then show ?thesis unfolding t by (metis nth_mem)
  qed
  have 3: "prefix (filter (\<lambda>t. score t = s \<and> spec_preferred w t = m) (top3 p w rows))
          (filter (\<lambda>t. score t = s \<and> spec_preferred w t = m) ?sc)"
    using filter_mono_prefix [OF take_is_prefix [of 3 ?full], of "\<lambda>t. score t = s \<and> spec_preferred w t = m"]
    by (simp only: t stable_in_group)
  from 1 2 3 left_out_means_full [of c p rows w] show ?thesis by blast
qed

theorem same_group_by_score_witness:
  "list_all measurements_in_range tie_rows \<and>
   map tire_id (tiresWithScore NotWet tie_rows) = [''wide-a'', ''narrow'', ''wide-b'', ''wide-c''] \<and>
   map tire_id (top3 NotWet W28 tie_rows) = [''narrow'', ''wide-b'', ''wide-a''] \<and>
   map score (top3 NotWet W28 tie_rows) = [Fin 27.5, lit 45.8, Fin 37.5] \<and>
   map (spec_preferred W28) (top3 NotWet W28 tie_rows) = [True, False, False] \<and>
   (1::nat) < 2 \<and> 2 < length (top3 NotWet W28 tie_rows) \<and>
   js_le (score (top3 NotWet W28 tie_rows ! 2)) (score (top3 NotWet W28 tie_rows ! 1)) \<and>
   score (top3 NotWet W28 tie_rows ! 2) \<noteq> score (top3 NotWet W28 tie_rows ! 1) \<and>
   top3 NotWet W28 tie_rows ! 1 \<in> set (top3 NotWet W28 tie_rows) \<and>
   map tire_id (filter (\<lambda>t. score t = Fin 37.5 \<and> spec_preferred W28 t = False) (top3 NotWet W28 tie_rows)) =
     [''wide-a''] \<and>
   map tire_id (filter (\<lambda>t. score t = Fin 37.5 \<and> spec_preferred W28 t = False) (tiresWithScore NotWet tie_rows)) =
     [''wide-a'', ''wide-c''] \<and>
   prefix (filter (\<lambda>t. score t = Fin 37.5 \<and> spec_preferred W28 t = False) (top3 NotWet W28 tie_rows))
          (filter (\<lambda>t. score t = Fin 37.5 \<and> spec_preferred W28 t = False) (tiresWithScore NotWet tie_rows)) \<and>
   with_score (WEIGHT_CONFIG NotWet) (tie_rows ! 3) \<in> set (tiresWithScore NotWet tie_rows) \<and>
   with_score (WEIGHT_CONFIG NotWet) (tie_rows ! 3) \<notin> set (top3 NotWet W28 tie_rows) \<and>
   length (top3 NotWet W28 tie_rows) = 3"
proof -
  have r: "\<forall>r \<in> set tie_rows. measurements_in_range r"
    by (simp add: tie_rows_def mk_tire_def measurements_in_range_def to_number_def MAX_VALUE_def)
  from same_group_by_score [OF r, of 1 2 NotWet W28 "top3 NotWet W28 tie_rows ! 2"
      "top3 NotWet W28 tie_rows ! 1" "Fin 37.5" False "with_score (WEIGHT_CONFIG NotWet) (tie_rows ! 3)"]
  show ?thesis
    by (simp add: tie_rows_def mk_tire_def ranker_defs spec_preferred_def spec_width_set_def lit_def
        measurements_in_range_def MAX_VALUE_def)
qed

text \<open>
  Two rows whose scores are equal in exact arithmetic: the rounding of the binary64
  operations makes the second score the higher one, and the second row comes first.
\<close>

lemma rounding_decides_order:
  "map score (tiresWithScore Normal rounding_rows) =
     [Fin (1604407367250739 / 35184372088832), lit 45.6] \<and>
   map tire_id (top3 Normal W28 rounding_rows) = [''B'', ''A'']"
  by (simp add: rounding_rows_def mk_tire_def ranker_defs lit_def)


subsection \<open>Explanations\<close>

lemma reasons_distinct:
  "distinct [reason_very_wgStrong, reason_very_else, reason_not_rrLow, reason_not_else,
     reason_normal_both, reason_normal_wgStrong, reason_normal_rrLow, reason_normal_else]"
  by (simp add: reason_very_wgStrong_def reason_very_else_def reason_not_rrLow_def reason_not_else_def
     reason_normal_both_def reason_normal_wgStrong_def reason_normal_rrLow_def reason_normal_else_def)

lemma inj_tag_text: "inj tag_text"
proof (rule injI)
  fix x y assume "tag_text x = tag_text y"
  then show "x = y"
    using reasons_distinct by (cases x; cases y; simp add: tag_text_def)
qed

text \<open>
  Claim C5. The fallback explanation is the text of the first row of the specification's
  table that matches the wet preference and the values \<open>wg\<close> and \<open>rr\<close> of the item, so it
  depends on these three only; and different rows of the table have different texts.
\<close>

theorem fallback_matches_table:
  "map_option tag_text (first_match spec_table wetPref (wg tire) (rr tire)) =
     Some (generateReason tire wetPref) \<and>
   inj tag_text"
  using inj_tag_text
  by (cases wetPref) (simp_all add: spec_table_def generateReason_def tag_text_def Let_def)

theorem fallback_matches_table_witness:
  "first_match spec_table Normal (wg (with_score (WEIGHT_CONFIG Normal) (elig_rows ! 0)))
      (rr (with_score (WEIGHT_CONFIG Normal) (elig_rows ! 0))) = Some All_around_wet_efficient \<and>
   generateReason (with_score (WEIGHT_CONFIG Normal) (elig_rows ! 0)) Normal = reason_normal_both \<and>
   first_match spec_table Normal (wg (with_score (WEIGHT_CONFIG Normal) (elig_rows ! 4)))
      (rr (with_score (WEIGHT_CONFIG Normal) (elig_rows ! 4))) = Some Balanced_daily_use \<and>
   generateReason (with_score (WEIGHT_CONFIG Normal) (elig_rows ! 4)) Normal = reason_normal_else"
  using fallback_matches_table [of Normal "with_score (WEIGHT_CONFIG Normal) (elig_rows ! 0)"]
    fallback_matches_table [of Normal "with_score (WEIGHT_CONFIG Normal) (elig_rows ! 4)"]
  by (simp add: spec_table_def elig_rows_def mk_tire_def to_number_def tag_text_def)

lemma explain_one_settles:
  "settles invoke p t \<Longrightarrow> explain_one invoke p t = Inr (explained invoke p t)"
  by (auto simp: settles_def explain_one_def explained_def split: invoke_outcome.splits option.splits)

lemma explain_one_fails:
  "\<not> settles invoke p t \<Longrightarrow> \<exists>e. explain_one invoke p t = Inl e"
  by (auto simp: settles_def explain_one_def split: invoke_outcome.splits option.splits)

lemma rejections_none:
  "\<forall>t \<in> set ts. f t = Inr (g t) \<Longrightarrow> rejections (map f ts) = [] \<and> fulfilments (map f ts) = map g ts"
  by (induction ts) auto

lemma rejections_some:
  "t \<in> set ts \<Longrightarrow> f t = Inl e \<Longrightarrow> rejections (map f ts) \<noteq> []"
  by (induction ts) (auto split: sum.splits)

lemma explainedTop3_settles:
  "list_all (settles invoke p) ts \<Longrightarrow> explainedTop3 invoke p ts = Inr (map (explained invoke p) ts)"
  using rejections_none [of ts "explain_one invoke p" "explained invoke p"]
  by (simp add: explainedTop3_def promise_all_def list_all_iff explain_one_settles)

lemma explainedTop3_fails:
  assumes "\<not> list_all (settles invoke p) ts"
  shows "\<exists>es. explainedTop3 invoke p ts = Inl es"
proof -
  from assms obtain t where t: "t \<in> set ts" "\<not> settles invoke p t"
    by (auto simp: list_all_iff)
  from explain_one_fails [OF t(2)] obtain e where "explain_one invoke p t = Inl e" ..
  with t(1) have "rejections (map (explain_one invoke p) ts) \<noteq> []" by (rule rejections_some)
  then show ?thesis by (simp add: explainedTop3_def promise_all_def)
qed

lemma generate_try_no_error:
  "\<not> truthy (sel_error sel) \<Longrightarrow>
   generate_try sel invoke p w = explainedTop3 invoke p (top3 p w (rows_of sel))"
  by (simp add: generate_try_def rows_of_def)

text \<open>
  What the handler does with the explanations. When the fetch of the rows reported no
  error and every explanation call of the top three resolves, with a provider error or
  with a payload, the results are the top three in order, an item whose call resolved
  with an error carries the fallback explanation and every other item the provider's.
  Otherwise the batch is rejected and the results stay as they were.
\<close>

lemma explanation_fallback_per_item:
  assumes "\<not> truthy (sel_error sel)"
  shows "list_all (settles invoke p) (top3 p w (rows_of sel)) \<Longrightarrow>
      generate_try sel invoke p w = Inr (map (explained invoke p) (top3 p w (rows_of sel))) \<and>
      handleGenerate sel invoke p w st =
        st\<lparr>feedback := None, results := map (explained invoke p) (top3 p w (rows_of sel)),
           showResults := True, loading := False\<rparr>"
    and "\<not> list_all (settles invoke p) (top3 p w (rows_of sel)) \<Longrightarrow>
      (\<exists>es. generate_try sel invoke p w = Inl es) \<and>
      handleGenerate sel invoke p w st = st\<lparr>feedback := None, loading := False\<rparr>"
proof -
  let ?T = "top3 p w (rows_of sel)"
  show "generate_try sel invoke p w = Inr (map (explained invoke p) ?T) \<and>
      handleGenerate sel invoke p w st =
        st\<lparr>feedback := None, results := map (explained invoke p) ?T, showResults := True, loading := False\<rparr>"
    if "list_all (settles invoke p) ?T"
    using that by (simp add: handleGenerate_def Let_def generate_try_no_error [OF assms] explainedTop3_settles)
  show "(\<exists>es. generate_try sel invoke p w = Inl es) \<and>
      handleGenerate sel invoke p w st = st\<lparr>feedback := None, loading := False\<rparr>"
    if "\<not> list_all (settles invoke p) ?T"
  proof -
    from explainedTop3_fails [OF that] obtain es where "generate_try sel invoke p w = Inl es"
      by (auto simp: generate_try_no_error [OF assms])
    then show ?thesis by (simp add: handleGenerate_def Let_def)
  qed
qed

lemma example_ids:
  "tire_id (example_rows ! 0) = ''item1''"
  "tire_id (example_rows ! Suc 0) = ''item2''"
  "tire_id (example_rows ! 2) = ''item3''"
  by (simp_all add: example_rows_def mk_tire_def)

text \<open>
  Claim C3. The code does not do what the claim says. On the specification's example,
  with a provider that answers item1 and item2: when the call for item3 resolves with an
  error, item3 alone carries the fallback explanation and the three results are shown;
  but when the call for item3 rejects, or resolves with neither error nor payload,
  the callback has no handler of its own, the whole batch is rejected and the operation
  ends in its \<^verbatim>\<open>catch\<close> branch with no results, where the claim asks for the same
  three results with the fallback explanation on item3.
\<close>

theorem explanation_failure_aborts:
  "map explanation (results (handleGenerate example_select failing_invoke NotWet W28 initial_state)) =
     [''about item1'', reason_not_else, ''about item2''] \<and>
   showResults (handleGenerate example_select failing_invoke NotWet W28 initial_state) \<and>
   map explanation (map (explained rejecting_invoke NotWet) (top3 NotWet W28 (rows_of example_select))) =
     [''about item1'', reason_not_else, ''about item2''] \<and>
   generate_try example_select rejecting_invoke NotWet W28 = Inl [InvokeRejected ''network''] \<and>
   handleGenerate example_select rejecting_invoke NotWet W28 initial_state = initial_state \<and>
   map explanation (map (explained null_invoke NotWet) (top3 NotWet W28 (rows_of example_select))) =
     [''about item1'', reason_not_else, ''about item2''] \<and>
   generate_try example_select null_invoke NotWet W28 = Inl [TypeError_reading_explanation_of_null] \<and>
   handleGenerate example_select null_invoke NotWet W28 initial_state = initial_state"
  by (simp add: handleGenerate_def generate_try_def example_select_def explainedTop3_def promise_all_def
      top3_example explain_one_def explained_def truthy_def rows_of_def failing_invoke_def
      rejecting_invoke_def null_invoke_def example_ids initial_state_def generateReason_def)
     (simp add: example_rows_def mk_tire_def to_number_def)


section \<open>Properties of the relay\<close>

text \<open>
  Claim C8, as amended. A request that is not a POST is answered 405; a POST without a
  configured webhook 500; a POST whose \<^verbatim>\<open>text\<close> is missing, not a string, or the
  empty string 400, without any upstream call. A POST with a non-empty text is forwarded
  once, as the JSON object \<^verbatim>\<open>{ msg_type: "text", content: { text } }\<close>, to the
  webhook; the answer is 200 "ok" when the upstream response is ok, and the upstream
  status and body otherwise.
\<close>

theorem relay_handler_responses:
  "(req_method req \<noteq> ''POST'' \<longrightarrow>
      handler env fetch req = \<lparr>fetch_calls = [], sent = replied 405 ''Method Not Allowed''\<rparr>) \<and>
   (req_method req = ''POST'' \<and> (env = None \<or> env = Some []) \<longrightarrow>
      handler env fetch req = \<lparr>fetch_calls = [], sent = replied 500 ''Missing FEISHU_WEBHOOK''\<rparr>) \<and>
   (req_method req = ''POST'' \<and> env = Some url \<and> url \<noteq> [] \<and>
    (body_text (req_body req) = None \<or> (\<forall>s. body_text (req_body req) \<noteq> Some (JStr s)) \<or>
     body_text (req_body req) = Some (JStr [])) \<longrightarrow>
      handler env fetch req = \<lparr>fetch_calls = [], sent = replied 400 ''Invalid payload''\<rparr>) \<and>
   (req_method req = ''POST'' \<and> env = Some url \<and> url \<noteq> [] \<and>
    body_text (req_body req) = Some (JStr t) \<and> t \<noteq> [] \<longrightarrow>
      (fetch url (relay_init t) = Response st b \<and> response_ok st \<longrightarrow>
         handler env fetch req = \<lparr>fetch_calls = [(url, relay_init t)], sent = replied 200 ''ok''\<rparr>) \<and>
      (fetch url (relay_init t) = Response st b \<and> \<not> response_ok st \<longrightarrow>
         handler env fetch req = \<lparr>fetch_calls = [(url, relay_init t)], sent = replied st b\<rparr>))"
  by (auto simp: handler_def replied_def relay_init_def buildPayload_def Let_def
      split: option.splits json.splits fetch_outcome.splits)

theorem relay_handler_responses_witness:
  "handler (Some ''https://hook'') (upstream 200 ''{}'') (text_request ''GET'' (JStr ''hello'')) =
     \<lparr>fetch_calls = [], sent = replied 405 ''Method Not Allowed''\<rparr> \<and>
   handler None (upstream 200 ''{}'') (text_request ''POST'' (JStr ''hello'')) =
     \<lparr>fetch_calls = [], sent = replied 500 ''Missing FEISHU_WEBHOOK''\<rparr> \<and>
   handler (Some ''https://hook'') (upstream 200 ''{}'') (text_request ''POST'' (JNum 5)) =
     \<lparr>fetch_calls = [], sent = replied 400 ''Invalid payload''\<rparr> \<and>
   handler (Some ''https://hook'') (upstream 200 ''{}'') \<lparr>req_method = ''POST'', req_body = None\<rparr> =
     \<lparr>fetch_calls = [], sent = replied 400 ''Invalid payload''\<rparr> \<and>
   handler (Some ''https://hook'') (upstream 200 ''{}'') (text_request ''POST'' (JStr [])) =
     \<lparr>fetch_calls = [], sent = replied 400 ''Invalid payload''\<rparr> \<and>
   handler (Some ''https://hook'') (upstream 200 ''{}'') (text_request ''POST'' (JStr ''hello'')) =
     \<lparr>fetch_calls = [(''https://hook'', relay_init ''hello'')], sent = replied 200 ''ok''\<rparr> \<and>
   handler (Some ''https://hook'') (upstream 502 ''bad gateway'') (text_request ''POST'' (JStr ''hello'')) =
     \<lparr>fetch_calls = [(''https://hook'', relay_init ''hello'')], sent = replied 502 ''bad gateway''\<rparr>"
  using
    relay_handler_responses [where req = "text_request ''GET'' (JStr ''hello'')" and env = "Some ''https://hook''"
      and fetch = "upstream 200 ''{}''"]
    relay_handler_responses [where req = "text_request ''POST'' (JStr ''hello'')" and env = None
      and fetch = "upstream 200 ''{}''"]
    relay_handler_responses [where req = "text_request ''POST'' (JNum 5)" and env = "Some ''https://hook''"
      and fetch = "upstream 200 ''{}''" and url = "''https://hook''"]
    relay_handler_responses [where req = "\<lparr>req_method = ''POST'', req_body = None\<rparr>" and env = "Some ''https://hook''"
      and fetch = "upstream 200 ''{}''" and url = "''https://hook''"]
    relay_handler_responses [where req = "text_request ''POST'' (JStr [])" and env = "Some ''https://hook''"
      and fetch = "upstream 200 ''{}''" and url = "''https://hook''"]
    relay_handler_responses [where req = "text_request ''POST'' (JStr ''hello'')" and env = "Some ''https://hook''"
      and fetch = "upstream 200 ''{}''" and url = "''https://hook''" and t = "''hello''" and st = 200 and b = "''{}''"]
    relay_handler_responses [where req = "text_request ''POST'' (JStr ''hello'')" and env = "Some ''https://hook''"
      and fetch = "upstream 502 ''bad gateway''" and url = "''https://hook''" and t = "''hello''" and st = 502
      and b = "''bad gateway''"]
  by (simp add: text_request_def upstream_def body_text_def response_ok_def)

text \<open>
  Claim C8 as it is stated fails: a POST to a configured relay whose \<^verbatim>\<open>text\<close> is
  present and is a string, the empty one, is answered 400 and nothing is forwarded,
  although the upstream would have answered 200.
\<close>

theorem relay_empty_text_counterexample:
  "req_method (text_request ''POST'' (JStr [])) = ''POST'' \<and>
   body_text (req_body (text_request ''POST'' (JStr []))) = Some (JStr []) \<and>
   upstream 200 ''{}'' ''https://hook'' (relay_init []) = Response 200 ''{}'' \<and>
   handler (Some ''https://hook'') (upstream 200 ''{}'') (text_request ''POST'' (JStr [])) =
     \<lparr>fetch_calls = [], sent = replied 400 ''Invalid payload''\<rparr> \<and>
   handler (Some ''https://hook'') (upstream 200 ''{}'') (text_request ''POST'' (JStr [])) \<noteq>
     \<lparr>fetch_calls = [(''https://hook'', relay_init [])], sent = replied 200 ''ok''\<rparr>"
  by (simp add: handler_def text_request_def body_text_def upstream_def replied_def)

text \<open>Beside the claim: when \<^verbatim>\<open>fetch\<close> itself rejects, no response is sent.\<close>

lemma relay_network_error:
  "req_method req = ''POST'' \<Longrightarrow> env = Some url \<Longrightarrow> url \<noteq> [] \<Longrightarrow>
   body_text (req_body req) = Some (JStr t) \<Longrightarrow> t \<noteq> [] \<Longrightarrow>
   fetch url (relay_init t) = NetworkError \<Longrightarrow>
   handler env fetch req = \<lparr>fetch_calls = [(url, relay_init t)], sent = None\<rparr>"
  by (simp add: handler_def relay_init_def buildPayload_def)

end
